theory Spec2Isabelle
  imports Main "HOL-Library.Word"
begin

section \<open>JavaScript values\<close>

text \<open>
  Exceptions are values: a function of the source that can throw returns
  \<open>error + 'a\<close>, with \<open>Inl\<close> for the thrown error.
\<close>

datatype error =
    Error string
  | TypeError string
  | RangeError string
  | SyntaxError string

fun error_message :: "error \<Rightarrow> string" where
  "error_message (Error m) = m"
| "error_message (TypeError m) = m"
| "error_message (RangeError m) = m"
| "error_message (SyntaxError m) = m"

subsection \<open>Strings\<close>

text \<open>
  A string is held as the bytes of its UTF-8 encoding, one \<open>char\<close> for a byte, so
  that ASCII text is held as it is written. A surrogate pair is the four bytes of its
  code point, and a surrogate outside a pair is encoded in three bytes like any other
  code unit from \<open>0800\<close> on.
\<close>

definition utf8_unit :: "nat \<Rightarrow> string" where
  "utf8_unit n =
     (if n < 128 then [char_of n]
      else if n < 2048 then [char_of (192 + n div 64), char_of (128 + n mod 64)]
      else [char_of (224 + n div 4096), char_of (128 + n div 64 mod 64),
            char_of (128 + n mod 64)])"

text \<open>
  The four bytes of the code point of a surrogate pair, from the second and third byte
  of each surrogate.
\<close>

definition utf8_pair :: "nat \<Rightarrow> nat \<Rightarrow> nat \<Rightarrow> nat \<Rightarrow> string" where
  "utf8_pair b c e f =
     (let cp = 65536 + ((b - 160) * 64 + c mod 64) * 1024 + ((e - 176) * 64 + f mod 64)
      in [char_of (240 + cp div 262144), char_of (128 + cp div 4096 mod 64),
          char_of (128 + cp div 64 mod 64), char_of (128 + cp mod 64)])"

text \<open>
  A high surrogate followed by a low surrogate is a pair: the bytes of a string built
  from code units are brought to the form above.
\<close>

fun join_surrogates :: "string \<Rightarrow> string" where
  "join_surrogates (a # b # c # d # e # f # cs) =
     (if a = CHR 0xED \<and> 160 \<le> (of_char b :: nat) \<and> (of_char b :: nat) < 176
         \<and> d = CHR 0xED \<and> 176 \<le> (of_char e :: nat) \<and> (of_char e :: nat) < 192
      then utf8_pair (of_char b) (of_char c) (of_char e) (of_char f) @ join_surrogates cs
      else a # join_surrogates (b # c # d # e # f # cs))"
| "join_surrogates cs = cs"

subsection \<open>Numbers\<close>

text \<open>
  Numbers are the values of the IEEE binary64 format, held exactly: \<open>Fin i\<close> is the
  integer \<open>i\<close>, \<open>Frac m k\<close> is \<open>m / 2 ^ k\<close> for an odd \<open>m\<close> and \<open>k > 0\<close>, a
  finite value that is no integer. Negative zero is not told apart from zero: the code
  never divides by a number and prints both as \<open>0\<close>.
\<close>

datatype number = NaN | Fin int | Frac int nat | PosInf | NegInf

subsection \<open>Decimal and hexadecimal digits\<close>

definition digit_char :: "nat \<Rightarrow> char" where
  "digit_char d = ''0123456789abcdef'' ! (d mod 16)"

function nat_to_string :: "nat \<Rightarrow> string" where
  "nat_to_string n =
     (if n < 10 then [digit_char n] else nat_to_string (n div 10) @ [digit_char (n mod 10)])"
  by pat_completeness auto
termination
  by (relation "measure id") auto

declare nat_to_string.simps [simp del]

subsection \<open>Rounding to binary64\<close>

text \<open>
  The result of an operation is the exact result rounded to the nearest value of the
  format, to the one with an even significand when two are equally near, and to an
  infinity from \<open>2 ^ 1024 - 2 ^ 970\<close> on. \<open>round_pos num den\<close> rounds the positive
  fraction \<open>num / den\<close>: the significand has 53 bits, or fewer at the exponent
  \<open>-1074\<close> of the subnormal values.
\<close>

function bit_length :: "nat \<Rightarrow> nat" where
  "bit_length n = (if n = 0 then 0 else Suc (bit_length (n div 2)))"
  by pat_completeness auto
termination
  by (relation "measure id") auto

declare bit_length.simps [simp del]

text \<open>The pair \<open>(N, D)\<close> with \<open>N / D = (num / den) / 2 ^ e\<close>.\<close>

definition scaled :: "nat \<Rightarrow> nat \<Rightarrow> int \<Rightarrow> nat \<times> nat" where
  "scaled num den e =
     (if 0 \<le> e then (num, den * 2 ^ nat e) else (num * 2 ^ nat (- e), den))"

definition round_half_even :: "nat \<times> nat \<Rightarrow> nat" where
  "round_half_even p =
     (let q = fst p div snd p; r = fst p mod snd p
      in if snd p < 2 * r \<or> (2 * r = snd p \<and> odd q) then q + 1 else q)"

definition binary_exponent :: "nat \<Rightarrow> nat \<Rightarrow> int" where
  "binary_exponent num den =
     (let e0 = int (bit_length num) - int (bit_length den) - 53;
          p = scaled num den e0
      in max (if 9007199254740992 \<le> fst p div snd p then e0 + 1 else e0) (- 1074))"

fun dyadic :: "nat \<Rightarrow> nat \<Rightarrow> number" where
  "dyadic q 0 = Fin (int q)"
| "dyadic q (Suc k) = (if even q then dyadic (q div 2) k else Frac (int q) (Suc k))"

definition round_pos :: "nat \<Rightarrow> nat \<Rightarrow> number" where
  "round_pos num den =
     (let e = binary_exponent num den;
          q = round_half_even (scaled num den e)
      in if 0 \<le> e then
           (if 2 ^ 1024 \<le> q * 2 ^ nat e then PosInf else Fin (int (q * 2 ^ nat e)))
         else dyadic q (nat (- e)))"

fun negate :: "number \<Rightarrow> number" where
  "negate NaN = NaN"
| "negate (Fin i) = Fin (- i)"
| "negate (Frac m k) = Frac (- m) k"
| "negate PosInf = NegInf"
| "negate NegInf = PosInf"

definition round_binary64 :: "int \<Rightarrow> nat \<Rightarrow> number" where
  "round_binary64 a b =
     (if a = 0 then Fin 0
      else if 0 < a then round_pos (nat a) b
      else negate (round_pos (nat (- a)) b))"

definition round_int :: "int \<Rightarrow> number" where
  "round_int x = (if \<bar>x\<bar> \<le> 9007199254740992 then Fin x else round_binary64 x 1)"

fun fraction_of :: "number \<Rightarrow> int \<times> nat" where
  "fraction_of (Fin i) = (i, 1)"
| "fraction_of (Frac m k) = (m, 2 ^ k)"
| "fraction_of _ = (0, 1)"

text \<open>
  Subtraction, comparison and absolute value. Integers within \<open>2 ^ 53\<close> are
  subtracted exactly.
\<close>

fun num_minus :: "number \<Rightarrow> number \<Rightarrow> number" where
  "num_minus (Fin a) (Fin b) = round_int (a - b)"
| "num_minus NaN y = NaN"
| "num_minus x NaN = NaN"
| "num_minus PosInf PosInf = NaN"
| "num_minus NegInf NegInf = NaN"
| "num_minus PosInf y = PosInf"
| "num_minus NegInf y = NegInf"
| "num_minus x PosInf = NegInf"
| "num_minus x NegInf = PosInf"
| "num_minus x y =
     round_binary64
       (fst (fraction_of x) * int (snd (fraction_of y))
          - fst (fraction_of y) * int (snd (fraction_of x)))
       (snd (fraction_of x) * snd (fraction_of y))"

fun num_greater :: "number \<Rightarrow> number \<Rightarrow> bool" where
  "num_greater (Fin a) (Fin b) = (a > b)"
| "num_greater NaN y = False"
| "num_greater x NaN = False"
| "num_greater x PosInf = False"
| "num_greater NegInf y = False"
| "num_greater PosInf y = True"
| "num_greater x NegInf = True"
| "num_greater x y =
     (fst (fraction_of x) * int (snd (fraction_of y))
        > fst (fraction_of y) * int (snd (fraction_of x)))"

fun Math_abs :: "number \<Rightarrow> number" where
  "Math_abs (Fin a) = Fin \<bar>a\<bar>"
| "Math_abs NaN = NaN"
| "Math_abs (Frac m k) = Frac \<bar>m\<bar> k"
| "Math_abs PosInf = PosInf"
| "Math_abs NegInf = PosInf"

subsection \<open>Printing a number\<close>

text \<open>
  \<open>Number::toString\<close>: the digits are the shortest decimal \<open>s\<close> of \<open>k\<close> digits with
  \<open>s * 10 ^ (n - k)\<close> rounding to the value, the nearest to it when there are two, and
  they are laid out plainly for \<open>-6 < n \<le> 21\<close> and with an exponent otherwise.
  \<open>decimal_exponent\<close> is the \<open>n\<close> with \<open>10 ^ (n - 1) \<le> num / den < 10 ^ n\<close>;
  the least positive value of the format is above \<open>10 ^ (- 324)\<close>, so the search
  for a negative \<open>n\<close> ends within its 400 steps. Seventeen digits tell every value
  of the format from its neighbours, so the search for the digits ends within its 17
  steps.
\<close>

fun find_scale :: "nat \<Rightarrow> nat \<Rightarrow> nat \<Rightarrow> nat \<Rightarrow> nat" where
  "find_scale 0 num den j = j"
| "find_scale (Suc fuel) num den j =
     (if den \<le> num * 10 ^ j then j else find_scale fuel num den (Suc j))"

definition decimal_exponent :: "nat \<Rightarrow> nat \<Rightarrow> int" where
  "decimal_exponent num den =
     (if den \<le> num then int (length (nat_to_string (num div den)))
      else 1 - int (find_scale 400 num den 1))"

text \<open>
  The digits \<open>s\<close> at \<open>k\<close> digits, when there are any: the two decimals around
  \<open>num / den\<close> are tried, \<open>candidate_value s p\<close> being the fraction
  \<open>s / 10 ^ p\<close>.
\<close>

definition candidate_value :: "nat \<Rightarrow> int \<Rightarrow> nat \<times> nat" where
  "candidate_value s p = (if 0 \<le> p then (s, 10 ^ nat p) else (s * 10 ^ nat (- p), 1))"

definition candidate :: "nat \<Rightarrow> nat \<Rightarrow> int \<Rightarrow> nat \<Rightarrow> nat option" where
  "candidate num den n k =
     (let p = int k - n;
          N = (if 0 \<le> p then num * 10 ^ nat p else num);
          D = (if 0 \<le> p then den else den * 10 ^ nat (- p));
          lo = N div D;
          hi = lo + 1;
          v = round_pos num den;
          ok_lo = (round_pos (fst (candidate_value lo p)) (snd (candidate_value lo p)) = v);
          ok_hi = (round_pos (fst (candidate_value hi p)) (snd (candidate_value hi p)) = v);
          d_lo = N - lo * D;
          d_hi = hi * D - N
      in if ok_lo \<and> (\<not> ok_hi \<or> d_lo < d_hi \<or> (d_lo = d_hi \<and> even lo)) then Some lo
         else if ok_hi then Some hi
         else None)"

fun search_digits :: "nat \<Rightarrow> nat \<Rightarrow> nat \<Rightarrow> int \<Rightarrow> nat \<Rightarrow> nat \<times> nat" where
  "search_digits 0 num den n k = (num div den, k)"
| "search_digits (Suc fuel) num den n k =
     (case candidate num den n k of
        Some s \<Rightarrow> (s, k)
      | None \<Rightarrow> search_digits fuel num den n (Suc k))"

definition format_number :: "string \<Rightarrow> int \<Rightarrow> string" where
  "format_number ds n =
     (let k = int (length ds) in
      if k \<le> n \<and> n \<le> 21 then ds @ replicate (nat (n - k)) (CHR ''0'')
      else if 0 < n \<and> n \<le> 21 then take (nat n) ds @ ''.'' @ drop (nat n) ds
      else if - 6 < n \<and> n \<le> 0 then ''0.'' @ replicate (nat (- n)) (CHR ''0'') @ ds
      else (let es = (if n - 1 < 0 then CHR ''-'' else CHR ''+'') # nat_to_string (nat \<bar>n - 1\<bar>)
            in if k = 1 then ds @ ''e'' @ es
               else take 1 ds @ ''.'' @ drop 1 ds @ ''e'' @ es))"

definition print_pos :: "nat \<Rightarrow> nat \<Rightarrow> string" where
  "print_pos num den =
     (let n = decimal_exponent num den;
          (s, k) = search_digits 17 num den n 1
      in if s = 10 ^ k then format_number ''1'' (n + 1)
         else format_number (nat_to_string s) n)"

text \<open>A value of the binary64 format, printed as \<open>Number::toString\<close> does.\<close>

fun print_double :: "number \<Rightarrow> string" where
  "print_double NaN = ''NaN''"
| "print_double PosInf = ''Infinity''"
| "print_double NegInf = ''-Infinity''"
| "print_double (Frac m k) =
     (if m < 0 then CHR ''-'' # print_pos (nat (- m)) (2 ^ k) else print_pos (nat m) (2 ^ k))"
| "print_double (Fin i) =
     (if i = 0 then ''0''
      else if i < 0 then CHR ''-'' # print_pos (nat (- i)) 1
      else print_pos (nat i) 1)"

text \<open>
  \<open>String(n)\<close> and the template literal \<open>${n}\<close> for a number. An integer within
  \<open>2 ^ 53\<close> prints as its digits.
\<close>

fun number_to_string :: "number \<Rightarrow> string" where
  "number_to_string (Fin i) =
     (if \<bar>i\<bar> < 9007199254740992 then
        (if i < 0 then CHR ''-'' # nat_to_string (nat (- i)) else nat_to_string (nat i))
      else print_double (round_int i))"
| "number_to_string x = print_double x"

text \<open>
  A JSON-serializable value. An object is the list of its members in enumeration order.
\<close>

datatype json =
    JNull
  | JBool bool
  | JNum number
  | JStr string
  | JArr "json list"
  | JObj "(string \<times> json) list"

fun is_JStr :: "json \<Rightarrow> bool" where
  "is_JStr (JStr s) = True"
| "is_JStr _ = False"

subsection \<open>Digits of a text\<close>

text \<open>
  The value of a character as a digit in a radix up to 36 (\<open>36\<close> when it is none).
\<close>

definition digit_val :: "char \<Rightarrow> nat" where
  "digit_val c =
     (let n = (of_char c :: nat) in
      if 48 \<le> n \<and> n \<le> 57 then n - 48
      else if 97 \<le> n \<and> n \<le> 122 then n - 87
      else if 65 \<le> n \<and> n \<le> 90 then n - 55
      else 36)"

definition is_hex_char :: "char \<Rightarrow> bool" where
  "is_hex_char c = (digit_val c < 16)"

subsection \<open>Buffers\<close>

text \<open>
  \<open>digest("hex")\<close>: two lowercase hexadecimal digits for each byte.
\<close>

fun hex_encode :: "8 word list \<Rightarrow> string" where
  "hex_encode [] = []"
| "hex_encode (b # bs) =
     digit_char (unat b div 16) # digit_char (unat b mod 16) # hex_encode bs"

text \<open>
  \<open>Buffer.from(s, "hex")\<close> never throws on a string: it decodes pairs of hexadecimal
  digits of either case and stops at the first pair that is not one; a single
  character left at the end is dropped.
\<close>

fun Buffer_from_hex :: "string \<Rightarrow> 8 word list" where
  "Buffer_from_hex (a # b # cs) =
     (if is_hex_char a \<and> is_hex_char b
      then of_nat (digit_val a * 16 + digit_val b) # Buffer_from_hex cs
      else [])"
| "Buffer_from_hex _ = []"

text \<open>
  \<open>crypto.timingSafeEqual\<close> throws a \<open>RangeError\<close> when the two buffers differ in
  length, and compares the bytes otherwise.
\<close>

definition timingSafeEqual :: "8 word list \<Rightarrow> 8 word list \<Rightarrow> error + bool" where
  "timingSafeEqual a b =
     (if length a \<noteq> length b
      then Inl (RangeError ''Input buffers must have the same byte length'')
      else Inr (a = b))"

section \<open>JSON.stringify\<close>

text \<open>The quoting of a string: the escapes of \<open>QuoteJSONString\<close>.\<close>

definition quote_char :: "char \<Rightarrow> string" where
  "quote_char c =
     (let n = (of_char c :: nat) in
      if n = 34 then [CHR 0x5C, CHR 0x22]
      else if n = 92 then [CHR 0x5C, CHR 0x5C]
      else if n = 8 then [CHR 0x5C, CHR ''b'']
      else if n = 12 then [CHR 0x5C, CHR ''f'']
      else if n = 10 then [CHR 0x5C, CHR ''n'']
      else if n = 13 then [CHR 0x5C, CHR ''r'']
      else if n = 9 then [CHR 0x5C, CHR ''t'']
      else if n < 32 then [CHR 0x5C, CHR ''u'', CHR ''0'', CHR ''0'',
                           digit_char (n div 16), digit_char (n mod 16)]
      else [c])"

text \<open>A surrogate outside a pair is written as a \<open>\u\<close> escape of its code unit.\<close>

definition escape_unit :: "nat \<Rightarrow> string" where
  "escape_unit n =
     [CHR 0x5C, CHR ''u'', digit_char (n div 4096), digit_char (n div 256 mod 16),
      digit_char (n div 16 mod 16), digit_char (n mod 16)]"

fun quote_chars :: "string \<Rightarrow> string" where
  "quote_chars (a # b # c # cs) =
     (if a = CHR 0xED \<and> 160 \<le> (of_char b :: nat)
      then escape_unit (53248 + (of_char b mod 64) * 64 + of_char c mod 64) @ quote_chars cs
      else quote_char a @ quote_chars (b # c # cs))"
| "quote_chars (a # cs) = quote_char a @ quote_chars cs"
| "quote_chars [] = []"

definition quote :: "string \<Rightarrow> string" where
  "quote s = CHR 0x22 # quote_chars s @ [CHR 0x22]"

fun JSON_stringify :: "json \<Rightarrow> string"
  and stringify_elements :: "json list \<Rightarrow> string"
  and stringify_members :: "(string \<times> json) list \<Rightarrow> string" where
  "JSON_stringify JNull = ''null''"
| "JSON_stringify (JBool b) = (if b then ''true'' else ''false'')"
| "JSON_stringify (JNum NaN) = ''null''"
| "JSON_stringify (JNum (Fin i)) = number_to_string (Fin i)"
| "JSON_stringify (JNum (Frac m k)) = number_to_string (Frac m k)"
| "JSON_stringify (JNum PosInf) = ''null''"
| "JSON_stringify (JNum NegInf) = ''null''"
| "JSON_stringify (JStr s) = quote s"
| "JSON_stringify (JArr xs) = ''['' @ stringify_elements xs @ '']''"
| "JSON_stringify (JObj kvs) = ''{'' @ stringify_members kvs @ ''}''"
| "stringify_elements [] = []"
| "stringify_elements [x] = JSON_stringify x"
| "stringify_elements (x # y # ys) = JSON_stringify x @ '','' @ stringify_elements (y # ys)"
| "stringify_members [] = []"
| "stringify_members [(k, v)] = quote k @ '':'' @ JSON_stringify v"
| "stringify_members ((k, v) # p # ps) =
     quote k @ '':'' @ JSON_stringify v @ '','' @ stringify_members (p # ps)"

section \<open>String functions\<close>

text \<open>\<open>s.split(sep)\<close> for a separator of one character: at least one part.\<close>

fun String_split :: "char \<Rightarrow> string \<Rightarrow> string list" where
  "String_split sep [] = [Nil]"
| "String_split sep (c # cs) =
     (if c = sep then [] # String_split sep cs
      else (case String_split sep cs of
              [] \<Rightarrow> [c # Nil]
            | p # ps \<Rightarrow> (c # p) # ps))"

text \<open>
  Reading an array at an index (as array destructuring does): \<open>None\<close> is
  \<open>undefined\<close>.
\<close>

definition nth_opt :: "'a list \<Rightarrow> nat \<Rightarrow> 'a option" where
  "nth_opt xs n = (if n < length xs then Some (xs ! n) else None)"

text \<open>The string a string-or-undefined argument is converted to.\<close>

fun ToString :: "string option \<Rightarrow> string" where
  "ToString None = ''undefined''"
| "ToString (Some s) = s"

text \<open>
  The white space and line terminators that \<open>parseInt\<close> skips: the six ASCII
  ones, U+00A0, and those of three bytes (U+1680, U+2000 to U+200A, U+2028, U+2029,
  U+202F, U+205F, U+3000, U+FEFF).
\<close>

definition is_space :: "char \<Rightarrow> bool" where
  "is_space c = ((of_char c :: nat) \<in> {9, 10, 11, 12, 13, 32})"

definition wide_space :: "char \<Rightarrow> char \<Rightarrow> char \<Rightarrow> bool" where
  "wide_space a b c =
     ((a = CHR 0xE1 \<and> b = CHR 0x9A \<and> c = CHR 0x80)
      \<or> (a = CHR 0xE2 \<and> b = CHR 0x80
          \<and> (of_char c :: nat) \<in> {128, 129, 130, 131, 132, 133, 134, 135, 136, 137, 138,
                                    168, 169, 175})
      \<or> (a = CHR 0xE2 \<and> b = CHR 0x81 \<and> c = CHR 0x9F)
      \<or> (a = CHR 0xE3 \<and> b = CHR 0x80 \<and> c = CHR 0x80)
      \<or> (a = CHR 0xEF \<and> b = CHR 0xBB \<and> c = CHR 0xBF))"

fun skip_space :: "string \<Rightarrow> string" where
  "skip_space (a # b # c # cs) =
     (if is_space a then skip_space (b # c # cs)
      else if a = CHR 0xC2 \<and> b = CHR 0xA0 then skip_space (c # cs)
      else if wide_space a b c then skip_space cs
      else a # b # c # cs)"
| "skip_space [a, b] =
     (if is_space a then skip_space [b]
      else if a = CHR 0xC2 \<and> b = CHR 0xA0 then []
      else [a, b])"
| "skip_space [a] = (if is_space a then [] else [a])"
| "skip_space [] = []"

definition digits_value :: "nat \<Rightarrow> string \<Rightarrow> nat" where
  "digits_value radix ds = foldl (\<lambda>a c. a * radix + digit_val c) 0 ds"

text \<open>
  \<open>parseInt(s)\<close> with no radix: leading white space is skipped, a sign is read, a
  prefix \<open>0x\<close> or \<open>0X\<close> selects radix 16, and the longest run of digits is the
  value, rounded to a number; \<open>NaN\<close> when there is no digit. What follows the
  digits is ignored.
\<close>

definition parseInt :: "string \<Rightarrow> number" where
  "parseInt str =
     (let s = skip_space str;
          neg = (case s of [] \<Rightarrow> False | c # _ \<Rightarrow> c = CHR ''-'');
          s1 = (case s of [] \<Rightarrow> s | c # r \<Rightarrow> if c = CHR ''-'' \<or> c = CHR ''+'' then r else s);
          hex = (case s1 of
                   a # b # _ \<Rightarrow> a = CHR ''0'' \<and> (b = CHR ''x'' \<or> b = CHR ''X'')
                 | _ \<Rightarrow> False);
          radix = (if hex then 16 else 10);
          s2 = (if hex then drop 2 s1 else s1);
          ds = takeWhile (\<lambda>c. digit_val c < radix) s2
      in if ds = [] then NaN
         else round_int
                (if neg then - int (digits_value radix ds) else int (digits_value radix ds)))"

section \<open>JSON.parse\<close>

text \<open>
  The reader works in two passes: the text is cut into tokens, and the tokens are read
  by a stack automaton. The text of an error message is the engine's and is not
  modelled: the messages below only name the kind of defect.
\<close>

datatype jtoken =
    LBrace | RBrace | LBracket | RBracket | Colon | Comma
  | TString string | TNumber number | TTrue | TFalse | TNull

definition is_json_space :: "char \<Rightarrow> bool" where
  "is_json_space c = ((of_char c :: nat) \<in> {9, 10, 13, 32})"

definition is_digit :: "char \<Rightarrow> bool" where
  "is_digit c = (digit_val c < 10)"

definition unescape :: "char \<Rightarrow> char option" where
  "unescape e =
     (if e = CHR 0x22 then Some (CHR 0x22)
      else if e = CHR 0x5C then Some (CHR 0x5C)
      else if e = CHR ''/'' then Some (CHR ''/'')
      else if e = CHR ''b'' then Some (CHR 0x08)
      else if e = CHR ''f'' then Some (CHR 0x0C)
      else if e = CHR ''n'' then Some (CHR 0x0A)
      else if e = CHR ''r'' then Some (CHR 0x0D)
      else if e = CHR ''t'' then Some (CHR 0x09)
      else None)"

text \<open>
  An escape sequence after its backslash: the bytes of the character or code unit it
  stands for and the text after it.
\<close>

definition read_escape :: "string \<Rightarrow> error + string \<times> string" where
  "read_escape cs =
     (case cs of
        [] \<Rightarrow> Inl (SyntaxError ''Unterminated string in JSON'')
      | e # r \<Rightarrow>
          if e = CHR ''u'' then
            (if 4 \<le> length r \<and> list_all is_hex_char (take 4 r)
             then Inr (utf8_unit (digits_value 16 (take 4 r)), drop 4 r)
             else Inl (SyntaxError ''Bad Unicode escape in JSON''))
          else
            (case unescape e of
               None \<Rightarrow> Inl (SyntaxError ''Bad escaped character in JSON'')
             | Some x \<Rightarrow> Inr ([x], r)))"

lemma read_escape_shorter: "read_escape cs = Inr (x, r) \<Longrightarrow> length r < length cs"
  by (cases cs) (auto simp: read_escape_def split: if_splits option.splits)

text \<open>
  The rest of a string literal after its opening quote: the bytes read so far
  (reversed) and the text; the result is the string and the text after the closing quote.
\<close>

function lex_string :: "string \<Rightarrow> string \<Rightarrow> error + string \<times> string" where
  "lex_string acc [] = Inl (SyntaxError ''Unterminated string in JSON'')"
| "lex_string acc (c # cs) =
     (if c = CHR 0x22 then Inr (join_surrogates (rev acc), cs)
      else if c = CHR 0x5C then
        (case read_escape cs of
           Inl e \<Rightarrow> Inl e
         | Inr (x, r) \<Rightarrow> lex_string (rev x @ acc) r)
      else if (of_char c :: nat) < 32 then
        Inl (SyntaxError ''Bad control character in string literal in JSON'')
      else lex_string (c # acc) cs)"
  by pat_completeness auto
termination
  by (relation "measure (\<lambda>(acc, cs). length cs)") (auto dest: read_escape_shorter)

text \<open>
  The fraction of a number literal, when the text goes on with one: its digits and the
  text after them.
\<close>

definition lex_fraction :: "string \<Rightarrow> error + string \<times> string" where
  "lex_fraction s =
     (case s of
        [] \<Rightarrow> Inr ([], s)
      | c # r \<Rightarrow>
          if c = CHR ''.'' then
            (if takeWhile is_digit r = []
             then Inl (SyntaxError ''Unterminated fractional number in JSON'')
             else Inr (takeWhile is_digit r, dropWhile is_digit r))
          else Inr ([], s))"

text \<open>The exponent of a number literal, 0 when the text goes on with none.\<close>

definition lex_exponent :: "string \<Rightarrow> error + int \<times> string" where
  "lex_exponent s =
     (case s of
        [] \<Rightarrow> Inr (0, s)
      | c # r \<Rightarrow>
          if c = CHR ''e'' \<or> c = CHR ''E'' then
            (let neg = (case r of [] \<Rightarrow> False | d # _ \<Rightarrow> d = CHR ''-'');
                 r1 = (case r of
                         [] \<Rightarrow> r
                       | d # r' \<Rightarrow> if d = CHR ''-'' \<or> d = CHR ''+'' then r' else r);
                 es = takeWhile is_digit r1
             in if es = [] then Inl (SyntaxError ''Exponent part is missing a number in JSON'')
                else Inr (if neg then - int (digits_value 10 es) else int (digits_value 10 es),
                          dropWhile is_digit r1))
          else Inr (0, s))"

text \<open>The number nearest to \<open>d * 10 ^ p\<close>, with the sign.\<close>

definition decimal_to_number :: "bool \<Rightarrow> nat \<Rightarrow> int \<Rightarrow> number" where
  "decimal_to_number neg d p =
     (let v = (if 0 \<le> p then round_int (int d * 10 ^ nat p)
               else round_binary64 (int d) (10 ^ nat (- p)))
      in if neg then negate v else v)"

text \<open>
  A number literal at the head of the text: an optional minus sign, an integer part
  with no leading zero, an optional fraction and an optional exponent.
\<close>

definition lex_number :: "string \<Rightarrow> error + number \<times> string" where
  "lex_number s =
     (let neg = (case s of [] \<Rightarrow> False | c # _ \<Rightarrow> c = CHR ''-'');
          r = (if neg then drop 1 s else s);
          ds = takeWhile is_digit r;
          rest = dropWhile is_digit r
      in case ds of
           [] \<Rightarrow> Inl (SyntaxError ''No number after minus sign in JSON'')
         | d # ds' \<Rightarrow>
             if d = CHR ''0'' \<and> ds' \<noteq> [] then Inl (SyntaxError ''Unexpected number in JSON'')
             else
               (case lex_fraction rest of
                  Inl e \<Rightarrow> Inl e
                | Inr (fs, rest1) \<Rightarrow>
                    (case lex_exponent rest1 of
                       Inl e \<Rightarrow> Inl e
                     | Inr (x, rest2) \<Rightarrow>
                         Inr (decimal_to_number neg (digits_value 10 (ds @ fs))
                                (x - int (length fs)), rest2))))"

text \<open>One of the three literal names at the head of the text.\<close>

definition lex_literal :: "string \<Rightarrow> error + jtoken \<times> string" where
  "lex_literal s =
     (if take 4 s = ''true'' then Inr (TTrue, drop 4 s)
      else if take 5 s = ''false'' then Inr (TFalse, drop 5 s)
      else if take 4 s = ''null'' then Inr (TNull, drop 4 s)
      else Inl (SyntaxError ''Unexpected token in JSON''))"

definition punctuation :: "char \<Rightarrow> jtoken option" where
  "punctuation c =
     (if c = CHR ''{'' then Some LBrace
      else if c = CHR ''}'' then Some RBrace
      else if c = CHR ''['' then Some LBracket
      else if c = CHR '']'' then Some RBracket
      else if c = CHR '':'' then Some Colon
      else if c = CHR '','' then Some Comma
      else None)"

text \<open>
  The token that starts with the character \<open>c\<close>, which is neither white space nor
  punctuation, and the text after the token.
\<close>

definition lex_token :: "char \<Rightarrow> string \<Rightarrow> error + jtoken \<times> string" where
  "lex_token c cs =
     (if c = CHR 0x22 then
        (case lex_string [] cs of
           Inl e \<Rightarrow> Inl e
         | Inr (s, rest) \<Rightarrow> Inr (TString s, rest))
      else if c = CHR ''-'' \<or> is_digit c then
        (case lex_number (c # cs) of
           Inl e \<Rightarrow> Inl e
         | Inr (n, rest) \<Rightarrow> Inr (TNumber n, rest))
      else lex_literal (c # cs))"

definition cons_token :: "jtoken \<Rightarrow> error + jtoken list \<Rightarrow> error + jtoken list" where
  "cons_token t r = (case r of Inl e \<Rightarrow> Inl e | Inr ts \<Rightarrow> Inr (t # ts))"

lemma lex_string_shorter: "lex_string acc cs = Inr (s, rest) \<Longrightarrow> length rest \<le> length cs"
proof (induction acc cs rule: lex_string.induct)
  case (1 acc)
  then show ?case by simp
next
  case (2 acc c cs)
  show ?case
  proof (cases "c = CHR 0x22")
    case True
    with "2.prems" show ?thesis by simp
  next
    case quote: False
    show ?thesis
    proof (cases "c = CHR 0x5C")
      case True
      with quote "2.prems" obtain x r where
        esc: "read_escape cs = Inr (x, r)" and run: "lex_string (rev x @ acc) r = Inr (s, rest)"
        by (auto split: sum.splits)
      from "2.IH"(1) [OF quote True esc refl run] have "length rest \<le> length r" .
      with read_escape_shorter [OF esc] show ?thesis by simp
    next
      case False
      with quote "2.prems" have ctl: "\<not> (of_char c :: nat) < 32"
        and run: "lex_string (c # acc) cs = Inr (s, rest)"
        by (auto split: if_splits)
      from "2.IH"(2) [OF quote False ctl run] show ?thesis by simp
    qed
  qed
qed

lemma lex_fraction_shorter: "lex_fraction s = Inr (fs, rest) \<Longrightarrow> length rest \<le> length s"
proof -
  assume a: "lex_fraction s = Inr (fs, rest)"
  show ?thesis
  proof (cases s)
    case Nil
    with a show ?thesis by (simp add: lex_fraction_def)
  next
    case (Cons c r)
    have "length (dropWhile is_digit r) \<le> length r"
      by (rule length_dropWhile_le)
    with a Cons show ?thesis
      by (auto simp: lex_fraction_def split: if_splits)
  qed
qed

lemma lex_exponent_shorter: "lex_exponent s = Inr (x, rest) \<Longrightarrow> length rest \<le> length s"
proof -
  assume a: "lex_exponent s = Inr (x, rest)"
  show ?thesis
  proof (cases s)
    case Nil
    with a show ?thesis by (simp add: lex_exponent_def)
  next
    case (Cons c r)
    define r1 where
      "r1 = (case r of [] \<Rightarrow> r | d # r' \<Rightarrow> if d = CHR ''-'' \<or> d = CHR ''+'' then r' else r)"
    have r1: "length r1 \<le> length r"
      by (cases r) (simp_all add: r1_def)
    have "length (dropWhile is_digit r1) \<le> length r1"
      by (rule length_dropWhile_le)
    with r1 have d: "length (dropWhile is_digit r1) \<le> length r" by simp
    from a Cons have "rest = s \<or> rest = dropWhile is_digit r1"
      by (auto simp: lex_exponent_def Let_def r1_def split: if_splits)
    with d Cons show ?thesis by auto
  qed
qed

lemma lex_number_shorter: "lex_number (c # cs) = Inr (n, rest) \<Longrightarrow> length rest \<le> length cs"
proof -
  assume a: "lex_number (c # cs) = Inr (n, rest)"
  define r where "r = (if c = CHR ''-'' then cs else c # cs)"
  from a obtain fs rest1 x where ne: "takeWhile is_digit r \<noteq> []"
    and f: "lex_fraction (dropWhile is_digit r) = Inr (fs, rest1)"
    and e: "lex_exponent rest1 = Inr (x, rest)"
    by (auto simp: lex_number_def r_def Let_def split: list.splits if_splits sum.splits)
  from ne obtain d r' where r: "r = d # r'" and d: "is_digit d"
    by (cases r) (auto split: if_splits)
  have "length (dropWhile is_digit r') \<le> length r'"
    by (rule length_dropWhile_le)
  with r d have "length (dropWhile is_digit r) < length r" by simp
  with lex_fraction_shorter [OF f] lex_exponent_shorter [OF e]
  have "length rest < length r" by simp
  then show ?thesis
    by (simp add: r_def split: if_splits)
qed

lemma lex_literal_shorter: "lex_literal (c # cs) = Inr (t, rest) \<Longrightarrow> length rest \<le> length cs"
  by (auto simp: lex_literal_def split: if_splits)

lemma lex_token_shorter: "lex_token c cs = Inr (t, rest) \<Longrightarrow> length rest \<le> length cs"
  unfolding lex_token_def
  by (auto split: if_splits sum.splits
      dest: lex_string_shorter lex_number_shorter lex_literal_shorter)

function tokenize :: "string \<Rightarrow> error + jtoken list" where
  "tokenize [] = Inr []"
| "tokenize (c # cs) =
     (if is_json_space c then tokenize cs
      else case punctuation c of
        Some t \<Rightarrow> cons_token t (tokenize cs)
      | None \<Rightarrow>
          (case lex_token c cs of
             Inl e \<Rightarrow> Inl e
           | Inr (t, rest) \<Rightarrow> cons_token t (tokenize rest)))"
  by pat_completeness auto
termination
proof (relation "measure length")
  fix c cs x t rest
  assume "lex_token c cs = Inr x" and "(t, rest) = x"
  then have "length rest \<le> length cs"
    using lex_token_shorter [of c cs t rest] by simp
  then show "(rest, c # cs) \<in> measure length" by simp
qed simp_all

text \<open>
  The stack automaton. A frame is a container under construction; the mode says which
  tokens may come next.
\<close>

datatype frame =
    InArray "json list"
  | InObject "(string \<times> json) list"
  | AfterKey "(string \<times> json) list" string

datatype mode =
    WantValue | WantValueOrClose | WantKeyOrClose | WantKey | WantColon | WantCommaOrClose
  | Finished json

text \<open>
  The members of an object are enumerated with the array indices first, in ascending
  order, and the other keys after them in the order of their creation. An array index
  is the decimal text of an integer below \<open>2 ^ 32 - 1\<close>.
\<close>

definition is_array_index :: "string \<Rightarrow> bool" where
  "is_array_index k =
     (k \<noteq> [] \<and> list_all is_digit k \<and> (k = ''0'' \<or> hd k \<noteq> CHR ''0'')
      \<and> length k \<le> 10 \<and> digits_value 10 k < 4294967295)"

fun insert_index :: "string \<Rightarrow> json \<Rightarrow> (string \<times> json) list \<Rightarrow> (string \<times> json) list" where
  "insert_index k v [] = [(k, v)]"
| "insert_index k v ((k', v') # ps) =
     (if is_array_index k' \<and> digits_value 10 k' < digits_value 10 k
      then (k', v') # insert_index k v ps
      else (k, v) # (k', v') # ps)"

text \<open>A member read twice keeps its first place and its last value.\<close>

fun replace_member :: "string \<Rightarrow> json \<Rightarrow> (string \<times> json) list \<Rightarrow> (string \<times> json) list" where
  "replace_member k v [] = []"
| "replace_member k v ((k', v') # ps) =
     (if k = k' then (k, v) # ps else (k', v') # replace_member k v ps)"

definition obj_put :: "string \<Rightarrow> json \<Rightarrow> (string \<times> json) list \<Rightarrow> (string \<times> json) list" where
  "obj_put k v kvs =
     (if k \<in> fst ` set kvs then replace_member k v kvs
      else if is_array_index k then insert_index k v kvs
      else kvs @ [(k, v)])"

fun put_value :: "json \<Rightarrow> frame list \<Rightarrow> error + mode \<times> frame list" where
  "put_value v [] = Inr (Finished v, [])"
| "put_value v (InArray xs # st) = Inr (WantCommaOrClose, InArray (xs @ [v]) # st)"
| "put_value v (AfterKey kvs k # st) = Inr (WantCommaOrClose, InObject (obj_put k v kvs) # st)"
| "put_value v (InObject kvs # st) = Inl (SyntaxError ''Unexpected token in JSON'')"

fun open_value :: "jtoken \<Rightarrow> frame list \<Rightarrow> error + mode \<times> frame list" where
  "open_value (TString s) st = put_value (JStr s) st"
| "open_value (TNumber n) st = put_value (JNum n) st"
| "open_value TTrue st = put_value (JBool True) st"
| "open_value TFalse st = put_value (JBool False) st"
| "open_value TNull st = put_value JNull st"
| "open_value LBracket st = Inr (WantValueOrClose, InArray [] # st)"
| "open_value LBrace st = Inr (WantKeyOrClose, InObject [] # st)"
| "open_value _ st = Inl (SyntaxError ''Unexpected token in JSON'')"

definition unexpected :: "error + mode \<times> frame list" where
  "unexpected = Inl (SyntaxError ''Unexpected token in JSON'')"

fun close_array :: "frame list \<Rightarrow> error + mode \<times> frame list" where
  "close_array (InArray xs # st) = put_value (JArr xs) st"
| "close_array _ = unexpected"

fun close_object :: "frame list \<Rightarrow> error + mode \<times> frame list" where
  "close_object (InObject kvs # st) = put_value (JObj kvs) st"
| "close_object _ = unexpected"

fun read_key :: "string \<Rightarrow> frame list \<Rightarrow> error + mode \<times> frame list" where
  "read_key k (InObject kvs # st) = Inr (WantColon, AfterKey kvs k # st)"
| "read_key k _ = unexpected"

fun next_item :: "frame list \<Rightarrow> error + mode \<times> frame list" where
  "next_item (InArray xs # st) = Inr (WantValue, InArray xs # st)"
| "next_item (InObject kvs # st) = Inr (WantKey, InObject kvs # st)"
| "next_item _ = unexpected"

fun parse_step :: "mode \<Rightarrow> frame list \<Rightarrow> jtoken \<Rightarrow> error + mode \<times> frame list" where
  "parse_step WantValue st t = open_value t st"
| "parse_step WantValueOrClose st t =
     (if t = RBracket then close_array st else open_value t st)"
| "parse_step WantKeyOrClose st t =
     (case t of
        RBrace \<Rightarrow> close_object st
      | TString k \<Rightarrow> read_key k st
      | _ \<Rightarrow> unexpected)"
| "parse_step WantKey st t =
     (case t of TString k \<Rightarrow> read_key k st | _ \<Rightarrow> unexpected)"
| "parse_step WantColon st t =
     (if t = Colon then Inr (WantValue, st) else unexpected)"
| "parse_step WantCommaOrClose st t =
     (case t of
        Comma \<Rightarrow> next_item st
      | RBracket \<Rightarrow> close_array st
      | RBrace \<Rightarrow> close_object st
      | _ \<Rightarrow> unexpected)"
| "parse_step (Finished v) st t = unexpected"

fun parse_tokens :: "mode \<Rightarrow> frame list \<Rightarrow> jtoken list \<Rightarrow> error + json" where
  "parse_tokens m st [] =
     (case m of
        Finished v \<Rightarrow> Inr v
      | _ \<Rightarrow> Inl (SyntaxError ''Unexpected end of JSON input''))"
| "parse_tokens m st (t # ts) =
     (case parse_step m st t of
        Inl e \<Rightarrow> Inl e
      | Inr (m', st') \<Rightarrow> parse_tokens m' st' ts)"

definition JSON_parse :: "string \<Rightarrow> error + json" where
  "JSON_parse str =
     (case tokenize str of
        Inl e \<Rightarrow> Inl e
      | Inr ts \<Rightarrow> parse_tokens WantValue [] ts)"

section \<open>The keyed-hash primitive\<close>

text \<open>
  \<open>crypto.createHmac(algorithm, secret).update(data).digest()\<close> is consumed, not
  implemented, by the repository: it is a parameter of every function that uses it.
  It takes the algorithm name, the key and the data, and throws for an algorithm the
  platform does not know.
\<close>

type_synonym hmac_primitive = "string \<Rightarrow> string \<Rightarrow> string \<Rightarrow> error + 8 word list"

section \<open>src/config/constants.js\<close>

definition MAX_TOKEN_AGE :: int where
  "MAX_TOKEN_AGE = 5 * 60 * 1000"

definition TIMESTAMP_HEADER :: string where
  "TIMESTAMP_HEADER = ''x-timestamp''"

definition SIGNATURE_HEADER :: string where
  "SIGNATURE_HEADER = ''x-signature''"

section \<open>src/utils/hmacGenerator.js\<close>

record SimpleHMAC =
  secret :: string
  algorithm :: string

text \<open>\<open>typeof message === "string" ? message : JSON.stringify(message)\<close>\<close>

fun message_data :: "json \<Rightarrow> string" where
  "message_data (JStr s) = s"
| "message_data m = JSON_stringify m"

text \<open>\<open>create\<close>: the catch block logs and throws the error again.\<close>

definition create :: "hmac_primitive \<Rightarrow> SimpleHMAC \<Rightarrow> json \<Rightarrow> error + string" where
  "create H this msg =
     (let data = message_data msg in
      case H (algorithm this) (secret this) data of
        Inl e \<Rightarrow> Inl e
      | Inr bytes \<Rightarrow> Inr (hex_encode bytes))"

text \<open>\<open>verify\<close>: every error thrown inside is caught and answered with \<open>false\<close>.\<close>

definition verify :: "hmac_primitive \<Rightarrow> SimpleHMAC \<Rightarrow> json \<Rightarrow> string \<Rightarrow> bool" where
  "verify H this msg receivedHmac =
     (case create H this msg of
        Inl e \<Rightarrow> False
      | Inr calculatedHmac \<Rightarrow>
          (case timingSafeEqual (Buffer_from_hex calculatedHmac) (Buffer_from_hex receivedHmac) of
             Inl e \<Rightarrow> False
           | Inr b \<Rightarrow> b))"

text \<open>
  \<open>createWithTimestamp\<close>. \<open>Date.now()\<close> is the argument \<open>now\<close>. An error thrown
  by \<open>create\<close> is not caught here.
\<close>

record timestamp_token =
  hmac :: string
  timestamp :: int
  data :: json
  fullToken :: string

definition createWithTimestamp ::
  "hmac_primitive \<Rightarrow> SimpleHMAC \<Rightarrow> int \<Rightarrow> json \<Rightarrow> error + timestamp_token" where
  "createWithTimestamp H this now msg =
     (let dataToSign = JObj [(''message'', msg), (''timestamp'', JNum (Fin now))] in
      case create H this (JStr (JSON_stringify dataToSign)) of
        Inl e \<Rightarrow> Inl e
      | Inr h \<Rightarrow>
          Inr \<lparr>hmac = h, timestamp = now, data = msg,
               fullToken = h @ '':'' @ number_to_string (Fin now) @ '':'' @ JSON_stringify msg\<rparr>)"

text \<open>
  The object \<open>verifyWithTimestamp\<close> returns. A field the returned object does not
  have is \<open>None\<close>; \<open>result_data\<close> is the field \<open>data\<close>, which holds the message
  or \<open>null\<close>.
\<close>

record verification =
  isValid :: bool
  reason :: string
  result_data :: "json option"
  age :: "number option"
  maxAge :: "int option"

text \<open>
  The body of the \<open>try\<close> block of \<open>verifyWithTimestamp\<close>. The token is split at
  every colon and the first three parts are taken; a part that is missing is
  \<open>undefined\<close>. The first part always exists.
\<close>

definition verifyWithTimestamp_try ::
  "hmac_primitive \<Rightarrow> SimpleHMAC \<Rightarrow> int \<Rightarrow> string \<Rightarrow> error + verification" where
  "verifyWithTimestamp_try H this now tok =
     (let parts = String_split (CHR '':'') tok;
          receivedHmac = nth_opt parts 0;
          timestampStr = nth_opt parts 1;
          messageStr = nth_opt parts 2;
          ts = parseInt (ToString timestampStr)
      in case JSON_parse (ToString messageStr) of
           Inl e \<Rightarrow> Inl e
         | Inr msg \<Rightarrow>
             (let tokenAge = num_minus (Fin now) ts in
              if num_greater tokenAge (Fin MAX_TOKEN_AGE) then
                Inr \<lparr>isValid = False, reason = ''Token expired'', result_data = None,
                     age = Some tokenAge, maxAge = Some MAX_TOKEN_AGE\<rparr>
              else
                (let originalData = JObj [(''message'', msg), (''timestamp'', JNum ts)] in
                 case create H this (JStr (JSON_stringify originalData)) of
                   Inl e \<Rightarrow> Inl e
                 | Inr calculatedHmac \<Rightarrow>
                     (let valid = verify H this (JStr (JSON_stringify originalData))
                                    (ToString receivedHmac)
                      in Inr \<lparr>isValid = valid,
                              reason = (if valid then ''Valid token'' else ''Invalid HMAC''),
                              result_data = Some (if valid then msg else JNull),
                              age = Some tokenAge, maxAge = None\<rparr>))))"

text \<open>\<open>verifyWithTimestamp\<close>: the \<open>catch\<close> block answers every error.\<close>

definition verifyWithTimestamp ::
  "hmac_primitive \<Rightarrow> SimpleHMAC \<Rightarrow> int \<Rightarrow> string \<Rightarrow> verification" where
  "verifyWithTimestamp H this now tok =
     (case verifyWithTimestamp_try H this now tok of
        Inl e \<Rightarrow>
          \<lparr>isValid = False, reason = ''Invalid token format: '' @ error_message e,
           result_data = None, age = None, maxAge = None\<rparr>
      | Inr r \<Rightarrow> r)"

section \<open>src/utils/security.js\<close>

text \<open>\<open>toUpperCase\<close> on ASCII text, which is what a request method is.\<close>

definition upper_char :: "char \<Rightarrow> char" where
  "upper_char c =
     (case map_of (zip ''abcdefghijklmnopqrstuvwxyz'' ''ABCDEFGHIJKLMNOPQRSTUVWXYZ'') c of
        None \<Rightarrow> c
      | Some u \<Rightarrow> u)"

definition toUpperCase :: "string \<Rightarrow> string" where
  "toUpperCase s = map upper_char s"

text \<open>
  The values JavaScript takes for false in \<open>body || {}\<close>; \<open>None\<close> is \<open>undefined\<close>.
\<close>

fun falsy :: "json option \<Rightarrow> bool" where
  "falsy None = True"
| "falsy (Some JNull) = True"
| "falsy (Some (JBool b)) = (\<not> b)"
| "falsy (Some (JNum NaN)) = True"
| "falsy (Some (JNum (Fin i))) = (i = 0)"
| "falsy (Some (JNum (Frac m k))) = False"
| "falsy (Some (JNum PosInf)) = False"
| "falsy (Some (JNum NegInf)) = False"
| "falsy (Some (JStr s)) = (s = [])"
| "falsy (Some (JArr xs)) = False"
| "falsy (Some (JObj kvs)) = False"

fun or_else :: "json option \<Rightarrow> json \<Rightarrow> json" where
  "or_else None d = d"
| "or_else (Some b) d = (if falsy (Some b) then d else b)"

definition createStringToSign :: "string \<Rightarrow> string \<Rightarrow> json option \<Rightarrow> string \<Rightarrow> string" where
  "createStringToSign meth pth bdy ts =
     ts @ ''.'' @ toUpperCase meth @ ''.'' @ pth @ ''.'' @ JSON_stringify (or_else bdy (JObj []))"

section \<open>src/middleware/hmacAuth.js\<close>

record request =
  headers :: "string \<rightharpoonup> string"
  req_method :: string
  path :: string
  body :: "json option"

text \<open>
  What the middleware does with a request: one of the four responses it sends, or the
  call of \<open>next()\<close>. The two ISO date strings of the expiry response are represented by
  the time values they render.
\<close>

datatype response =
    MissingHeaders "string list"
  | RequestExpired int int number int
  | InvalidSignature
  | Next
  | AuthenticationError string

fun status :: "response \<Rightarrow> nat option" where
  "status (MissingHeaders hs) = Some 401"
| "status (RequestExpired received server diff allowed) = Some 401"
| "status InvalidSignature = Some 401"
| "status Next = None"
| "status (AuthenticationError details) = Some 500"

text \<open>
  \<open>new Date(v)\<close> keeps a time value only within 8.64e15 milliseconds of the epoch,
  cut to an integer towards zero, and \<open>toISOString\<close> throws a \<open>RangeError\<close> on
  an invalid date. A date is represented by its time value, an integer or \<open>NaN\<close>.
\<close>

definition new_Date :: "number \<Rightarrow> number" where
  "new_Date v =
     (case v of
        NaN \<Rightarrow> NaN
      | Fin t \<Rightarrow> if \<bar>t\<bar> > 8640000000000000 then NaN else Fin t
      | Frac m k \<Rightarrow>
          if \<bar>m\<bar> > 8640000000000000 * 2 ^ k then NaN else Fin (sgn m * (\<bar>m\<bar> div 2 ^ k))
      | PosInf \<Rightarrow> NaN
      | NegInf \<Rightarrow> NaN)"

definition toISOString :: "number \<Rightarrow> error + int" where
  "toISOString d =
     (case d of
        Fin t \<Rightarrow> Inr t
      | _ \<Rightarrow> Inl (RangeError ''Invalid time value''))"

text \<open>\<open>!h\<close> for a header: it is absent or the empty string.\<close>

fun header_missing :: "string option \<Rightarrow> bool" where
  "header_missing None = True"
| "header_missing (Some s) = (s = [])"

text \<open>The body of the \<open>try\<close> block of \<open>hmacAuth\<close>.\<close>

definition hmacAuth_try ::
  "hmac_primitive \<Rightarrow> SimpleHMAC \<Rightarrow> int \<Rightarrow> request \<Rightarrow> error + response" where
  "hmacAuth_try H hm now req =
     (let ts = headers req TIMESTAMP_HEADER;
          signature = headers req SIGNATURE_HEADER
      in if header_missing ts \<or> header_missing signature then
           Inr (MissingHeaders [TIMESTAMP_HEADER, SIGNATURE_HEADER])
         else
           (let requestTime = parseInt (ToString ts);
                timeDiff = Math_abs (num_minus (Fin now) requestTime)
            in if num_greater timeDiff (Fin MAX_TOKEN_AGE) then
                 (case toISOString (new_Date requestTime) of
                    Inl e \<Rightarrow> Inl e
                  | Inr receivedTime \<Rightarrow>
                      (case toISOString (new_Date (Fin now)) of
                         Inl e \<Rightarrow> Inl e
                       | Inr serverTime \<Rightarrow>
                           Inr (RequestExpired receivedTime serverTime timeDiff MAX_TOKEN_AGE)))
               else
                 (let stringToSign =
                        createStringToSign (req_method req) (path req) (body req) (ToString ts)
                  in if \<not> verify H hm (JStr stringToSign) (ToString signature)
                     then Inr InvalidSignature
                     else Inr Next)))"

text \<open>\<open>hmacAuth\<close>: the \<open>catch\<close> block answers every error with status 500.\<close>

definition hmacAuth :: "hmac_primitive \<Rightarrow> SimpleHMAC \<Rightarrow> int \<Rightarrow> request \<Rightarrow> response" where
  "hmacAuth H hm now req =
     (case hmacAuth_try H hm now req of
        Inl e \<Rightarrow> AuthenticationError (error_message e)
      | Inr r \<Rightarrow> r)"

section \<open>A stand-in primitive for concrete runs\<close>

text \<open>
  Not a cryptographic function: a small keyed checksum with the interface of the
  primitive, used only to run the code on concrete inputs. It knows the three
  algorithm names of \<open>src/config/constants.js\<close>.
\<close>

definition checksum :: "string \<Rightarrow> nat" where
  "checksum s = foldl (\<lambda>a c. (a * 31 + of_char c) mod 65536) 7 s"

definition demo_hmac :: hmac_primitive where
  "demo_hmac alg key txt =
     (if alg = ''sha256'' \<or> alg = ''sha512'' \<or> alg = ''sha1''
      then Inr [of_nat (checksum (key @ txt) div 256), of_nat (checksum (key @ txt)),
                of_nat (checksum (txt @ key) div 256), of_nat (checksum (txt @ key))]
      else Inl (Error (''Invalid digest: '' @ alg)))"

definition demo :: SimpleHMAC where
  "demo = \<lparr>secret = ''0123456789abcdef0123456789abcdef'', algorithm = ''sha256''\<rparr>"

section \<open>Properties\<close>

subsection \<open>Rounding of integers\<close>

text \<open>
  An integer within \<open>2 ^ 53\<close> is a number; a larger one is rounded to an infinity or
  to an integer of at least \<open>2 ^ 52\<close> in absolute value, so that the comparison of
  a rounded integer with a small bound is that of the integer itself.
\<close>

lemma bit_length_bounds: "0 < n \<Longrightarrow> 2 ^ (bit_length n - 1) \<le> n \<and> n < 2 ^ bit_length n"
proof (induction n rule: bit_length.induct)
  case (1 n)
  show ?case
  proof (cases "n div 2 = 0")
    case True
    with "1.prems" have n: "n = 1" by (simp add: div_eq_0_iff) 
    have "bit_length (Suc 0) = Suc 0"
      by (simp add: bit_length.simps)
    with n show ?thesis by simp
  next
    case False
    with "1.IH" "1.prems" have ih: "2 ^ (bit_length (n div 2) - 1) \<le> n div 2"
      and ih2: "n div 2 < 2 ^ bit_length (n div 2)" by simp_all
    from False have pos: "0 < bit_length (n div 2)"
      by (subst bit_length.simps) simp
    from "1.prems" have bl: "bit_length n = Suc (bit_length (n div 2))"
      by (subst bit_length.simps) simp
    from pos obtain k where k: "bit_length (n div 2) = Suc k"
      by (cases "bit_length (n div 2)") simp_all
    from ih k have "2 * 2 ^ k \<le> 2 * (n div 2)" by simp
    also have "\<dots> \<le> n" by simp
    finally have lo: "2 ^ (bit_length n - 1) \<le> n" by (simp add: bl k)
    from ih2 have "n div 2 + 1 \<le> 2 ^ bit_length (n div 2)" by simp
    then have "2 * (n div 2) + 2 \<le> 2 * 2 ^ bit_length (n div 2)" by simp
    moreover have "n < 2 * (n div 2) + 2" by presburger
    ultimately have "n < 2 ^ bit_length n" by (simp add: bl)
    with lo show ?thesis by simp
  qed
qed

lemma bit_length_one: "bit_length (Suc 0) = Suc 0"
  by (simp add: bit_length.simps)

lemma round_half_even_ge: "fst p div snd p \<le> round_half_even p"
  by (simp add: round_half_even_def Let_def)

lemma round_pos_large:
  assumes "9007199254740992 \<le> n"
  shows "round_pos n 1 = PosInf \<or> (\<exists>y. round_pos n 1 = Fin y \<and> 4503599627370496 \<le> y)"
proof -
  from assms have pos: "0 < n" by simp
  define b where "b = bit_length n"
  from bit_length_bounds [OF pos] have lo: "2 ^ (b - 1) \<le> n" and hi: "n < 2 ^ b"
    by (simp_all add: b_def)
  have b54: "54 \<le> b"
  proof (rule ccontr)
    assume "\<not> 54 \<le> b"
    then have "b \<le> 53" by simp
    then have "(2::nat) ^ b \<le> 2 ^ 53" by (rule power_increasing) simp
    with hi assms show False by simp
  qed
  define e where "e = binary_exponent n 1"
  have e_lo: "int b - 54 \<le> e" and e_hi: "e \<le> int b - 53"
    by (simp_all add: e_def binary_exponent_def Let_def bit_length_one b_def)
  from e_lo b54 have e0: "0 \<le> e" by simp
  define k where "k = nat e"
  from e0 e_hi b54 have k: "k + 53 \<le> b" by (simp add: k_def)
  define q where "q = round_half_even (scaled n 1 e)"
  from e0 have sc: "scaled n 1 e = (n, 2 ^ k)" by (simp add: scaled_def k_def)
  have "(2::nat) ^ 52 * 2 ^ k = 2 ^ (52 + k)" by (simp add: power_add)
  also from k have "\<dots> \<le> 2 ^ (b - 1)" by (intro power_increasing) simp_all
  also note lo
  finally have "2 ^ 52 * 2 ^ k \<le> n" .
  then have "2 ^ 52 \<le> n div 2 ^ k"
    by (simp add: less_eq_div_iff_mult_less_eq)
  also have "\<dots> \<le> q"
    unfolding q_def sc using round_half_even_ge [of "(n, 2 ^ k)"] by simp
  finally have "2 ^ 52 \<le> q" .
  then have q52: "4503599627370496 \<le> q" by simp
  have "q * 1 \<le> q * 2 ^ k" by (intro mult_le_mono2) simp
  then have "q \<le> q * 2 ^ k" by simp
  with q52 have big: "4503599627370496 \<le> q * 2 ^ k" by (rule order_trans)
  from big have ibig: "(4503599627370496::int) \<le> int (q * 2 ^ k)" by linarith
  have rp: "round_pos n 1 = (if 2 ^ 1024 \<le> q * 2 ^ k then PosInf else Fin (int (q * 2 ^ k)))"
    unfolding round_pos_def Let_def e_def [symmetric] q_def [symmetric] k_def
    using e0 by simp
  show ?thesis
  proof (cases "2 ^ 1024 \<le> q * 2 ^ k")
    case True
    with rp have "round_pos n 1 = PosInf" by (simp only: if_True)
    then show ?thesis by blast
  next
    case False
    with rp have "round_pos n 1 = Fin (int (q * 2 ^ k))" by (simp only: if_False)
    with ibig show ?thesis by blast
  qed
qed

lemma round_int_cases:
  "(\<bar>x\<bar> \<le> 9007199254740992 \<and> round_int x = Fin x)
   \<or> (9007199254740992 < x
       \<and> (round_int x = PosInf \<or> (\<exists>y. round_int x = Fin y \<and> 4503599627370496 \<le> y)))
   \<or> (x < - 9007199254740992
       \<and> (round_int x = NegInf \<or> (\<exists>y. round_int x = Fin y \<and> y \<le> - 4503599627370496)))"
proof -
  consider "\<bar>x\<bar> \<le> 9007199254740992" | "9007199254740992 < x" | "x < - 9007199254740992"
    by linarith
  then show ?thesis
  proof cases
    case 1
    then show ?thesis by (simp add: round_int_def)
  next
    case 2
    then have r: "round_int x = round_pos (nat x) 1"
      by (simp add: round_int_def round_binary64_def)
    from 2 have "9007199254740992 \<le> nat x" by simp
    from round_pos_large [OF this] r 2 show ?thesis by simp
  next
    case 3
    then have r: "round_int x = negate (round_pos (nat (- x)) 1)"
      by (simp add: round_int_def round_binary64_def)
    from 3 have "9007199254740992 \<le> nat (- x)" by simp
    from round_pos_large [OF this] r 3 show ?thesis by auto
  qed
qed

lemma round_int_greater:
  "0 \<le> c \<Longrightarrow> c \<le> 4503599627370495 \<Longrightarrow> num_greater (round_int x) (Fin c) = (c < x)"
  using round_int_cases [of x] by auto

lemma round_int_abs_greater:
  "0 \<le> c \<Longrightarrow> c \<le> 4503599627370495 \<Longrightarrow> num_greater (Math_abs (round_int x)) (Fin c) = (c < \<bar>x\<bar>)"
  using round_int_cases [of x] by auto

subsection \<open>Hexadecimal text and buffers\<close>





lemma Buffer_from_hex_prefix: "list_all is_hex_char (take (2 * length (Buffer_from_hex s)) s)"
  by (induction s rule: Buffer_from_hex.induct) auto






subsection \<open>The token reader\<close>

lemma nth_opt_beyond: "length xs \<le> n \<Longrightarrow> nth_opt xs n = None"
  by (simp add: nth_opt_def)

lemma JSON_parse_undefined:
  "JSON_parse (ToString None) = Inl (SyntaxError ''Unexpected token in JSON'')"
  by (simp add: JSON_parse_def is_json_space_def punctuation_def lex_token_def is_digit_def
      digit_val_def lex_literal_def)

lemma verifyWithTimestamp_parse_error:
  "JSON_parse (ToString (nth_opt (String_split (CHR '':'') tok) 2)) = Inl e
   \<Longrightarrow> verifyWithTimestamp H this now tok =
       \<lparr>isValid = False, reason = ''Invalid token format: '' @ error_message e,
        result_data = None, age = None, maxAge = None\<rparr>"
  by (simp add: verifyWithTimestamp_def verifyWithTimestamp_try_def Let_def)

text \<open>
  The parts of a token made by \<open>createWithTimestamp\<close>: the digest and the
  timestamp hold no colon, so every further cut falls inside the JSON text of the message.
\<close>

lemma String_split_nonempty: "String_split sep s \<noteq> []"
  by (induction s) (auto split: list.splits)

lemma String_split_append:
  "sep \<notin> set a \<Longrightarrow> String_split sep (a @ sep # rest) = a # String_split sep rest"
  by (induction a) auto

lemma digit_char_no_colon_upto: "list_all (\<lambda>n. digit_char n \<noteq> CHR '':'') [0..<16]"
  by code_simp

lemma digit_char_no_colon: "digit_char d \<noteq> CHR '':''"
proof -
  have "digit_char (d mod 16) \<noteq> CHR '':''"
    using digit_char_no_colon_upto by (simp add: list_all_iff)
  then show ?thesis by (simp add: digit_char_def)
qed

lemma hex_encode_no_colon: "CHR '':'' \<notin> set (hex_encode bs)"
  by (induction bs) (simp_all add: digit_char_no_colon [symmetric])

lemma nat_to_string_no_colon: "CHR '':'' \<notin> set (nat_to_string n)"
proof (induction n rule: nat_to_string.induct)
  case (1 n)
  show ?case
  proof (cases "n < 10")
    case True
    then show ?thesis
      by (subst nat_to_string.simps) (simp add: digit_char_no_colon [symmetric])
  next
    case False
    with 1 show ?thesis
      by (subst nat_to_string.simps) (simp add: digit_char_no_colon [symmetric])
  qed
qed

lemma format_number_no_colon:
  "CHR '':'' \<notin> set ds \<Longrightarrow> CHR '':'' \<notin> set (format_number ds n)"
  by (auto simp: format_number_def Let_def nat_to_string_no_colon
      dest: in_set_takeD in_set_dropD)

lemma print_pos_no_colon: "CHR '':'' \<notin> set (print_pos num den)"
  by (simp add: print_pos_def Let_def format_number_no_colon nat_to_string_no_colon
      split: prod.splits)

lemma print_double_no_colon: "CHR '':'' \<notin> set (print_double x)"
  by (cases x) (simp_all add: print_pos_no_colon)

lemma number_to_string_no_colon: "CHR '':'' \<notin> set (number_to_string x)"
  by (cases x)
    (simp_all add: nat_to_string_no_colon print_double_no_colon del: print_double.simps)

lemma fullToken_parts:
  assumes "createWithTimestamp H this now msg = Inr tk"
  shows "\<exists>h. String_split (CHR '':'') (fullToken tk)
           = h # number_to_string (Fin now) # String_split (CHR '':'') (JSON_stringify msg)"
proof -
  from assms obtain bytes where
    tk: "fullToken tk = hex_encode bytes @ '':'' @ number_to_string (Fin now) @ '':''
                          @ JSON_stringify msg"
    by (auto simp: createWithTimestamp_def create_def Let_def split: sum.splits)
  have "String_split (CHR '':'') (fullToken tk)
          = hex_encode bytes # String_split (CHR '':'')
              (number_to_string (Fin now) @ CHR '':'' # JSON_stringify msg)"
    unfolding tk using String_split_append [OF hex_encode_no_colon] by simp
  also have "String_split (CHR '':'') (number_to_string (Fin now) @ CHR '':'' # JSON_stringify msg)
          = number_to_string (Fin now) # String_split (CHR '':'') (JSON_stringify msg)"
    using String_split_append [OF number_to_string_no_colon]
    by (simp del: number_to_string.simps)
  finally show ?thesis by blast
qed

subsection \<open>Concrete runs\<close>

lemmas print_simps = nat_to_string.simps digit_char_def quote_def quote_char_def

lemma parseInt_abc: "parseInt ''abc'' = NaN"
  by (simp add: parseInt_def is_space_def wide_space_def digit_val_def)

lemma parseInt_far: "parseInt ''8640000000000001'' = Fin 8640000000000001"
  by (simp add: parseInt_def is_space_def wide_space_def digit_val_def digits_value_def round_int_def)

lemma parseInt_now: "parseInt ''1700000000000'' = Fin 1700000000000"
  by (simp add: parseInt_def is_space_def wide_space_def digit_val_def digits_value_def round_int_def)

lemma parse_hello: \<open>JSON_parse ''"hello"'' = Inr (JStr ''hello'')\<close>
  by (simp add: JSON_parse_def is_json_space_def punctuation_def lex_token_def cons_token_def)

lemma parse_one: \<open>JSON_parse ''1'' = Inr (JNum (Fin 1))\<close>
  by (simp add: JSON_parse_def is_json_space_def punctuation_def lex_token_def cons_token_def
      is_digit_def digit_val_def lex_number_def lex_fraction_def lex_exponent_def
      decimal_to_number_def round_int_def digits_value_def)

lemma parse_cut: \<open>JSON_parse ''{"userId"'' = Inl (SyntaxError ''Unexpected end of JSON input'')\<close>
  by (simp add: JSON_parse_def is_json_space_def punctuation_def lex_token_def cons_token_def)

lemma demo_signed_user:
  \<open>demo_hmac (algorithm demo) (secret demo) ''{"message":{"userId":123},"timestamp":1700000000000}''
   = Inr [0x0a, 0x5a, 0x46, 0x5a]\<close>
  by (simp add: demo_hmac_def checksum_def demo_def)

lemma demo_signed_nan:
  \<open>demo_hmac (algorithm demo) (secret demo) ''{"message":1,"timestamp":null}''
   = Inr [0xc4, 0xae, 0xd4, 0xae]\<close>
  by (simp add: demo_hmac_def checksum_def demo_def)

lemma demo_signed_hello:
  \<open>demo_hmac (algorithm demo) (secret demo) ''{"message":"hello","timestamp":1700000000000}''
   = Inr [0xee, 0x3a, 0x02, 0xda]\<close>
  by (simp add: demo_hmac_def checksum_def demo_def)

lemma demo_hi:
  \<open>demo_hmac (algorithm demo) (secret demo) ''hi'' = Inr [0xf4, 0x98, 0xc4, 0x98]\<close>
  by (simp add: demo_hmac_def checksum_def demo_def)

lemma demo_request:
  \<open>demo_hmac (algorithm demo) (secret demo) ''abc.GET./api/protected.{}''
   = Inr [0x7a, 0xeb, 0x53, 0x8b]\<close>
  by (simp add: demo_hmac_def checksum_def demo_def)

lemma create_signed_user:
  \<open>create demo_hmac demo (JStr ''{"message":{"userId":123},"timestamp":1700000000000}'')
     = Inr ''0a5a465a''\<close>
  by (simp add: create_def demo_signed_user digit_char_def)

lemma create_signed_nan:
  \<open>create demo_hmac demo (JStr ''{"message":1,"timestamp":null}'') = Inr ''c4aed4ae''\<close>
  by (simp add: create_def demo_signed_nan digit_char_def)

lemma create_signed_hello:
  \<open>create demo_hmac demo (JStr ''{"message":"hello","timestamp":1700000000000}'')
     = Inr ''ee3a02da''\<close>
  by (simp add: create_def demo_signed_hello digit_char_def)

lemma create_hi: "create demo_hmac demo (JStr ''hi'') = Inr ''f498c498''"
  by (simp add: create_def demo_hi digit_char_def)

lemma create_request: "create demo_hmac demo (JStr ''abc.GET./api/protected.{}'') = Inr ''7aeb538b''"
  by (simp add: create_def demo_request digit_char_def)

lemma string_to_sign_abc:
  "createStringToSign ''GET'' ''/api/protected'' None ''abc'' = ''abc.GET./api/protected.{}''"
  by (simp add: createStringToSign_def toUpperCase_def upper_char_def)

lemma parseInt_old: "parseInt ''1699999400000'' = Fin 1699999400000"
  by (simp add: parseInt_def is_space_def wide_space_def digit_val_def digits_value_def round_int_def)

lemma parse_cut_test:
  \<open>JSON_parse ''{"test"'' = Inl (SyntaxError ''Unexpected end of JSON input'')\<close>
  by (simp add: JSON_parse_def is_json_space_def punctuation_def lex_token_def cons_token_def)

text \<open>
  Numbers beyond the integers that are held exactly: a timestamp above \<open>2 ^ 53\<close> is
  rounded to the nearest number, and a message with a fraction is read.
\<close>

lemma parseInt_rounds: "parseInt ''9007199254740993'' = Fin 9007199254740992"
  by (simp add: parseInt_def is_space_def wide_space_def digit_val_def digits_value_def
      round_int_def round_binary64_def round_pos_def binary_exponent_def scaled_def
      round_half_even_def bit_length.simps Let_def)

lemma parseInt_late: "parseInt ''1699999699999'' = Fin 1699999699999"
  by (simp add: parseInt_def is_space_def wide_space_def digit_val_def digits_value_def round_int_def)

lemma dyadic_numeral:
  "dyadic q (numeral n)
     = (if even q then dyadic (q div 2) (pred_numeral n) else Frac (int q) (numeral n))"
  by (simp add: numeral_eq_Suc)

lemma parse_fraction: \<open>JSON_parse ''1.5'' = Inr (JNum (Frac 3 1))\<close>
  by (simp add: JSON_parse_def is_json_space_def punctuation_def lex_token_def cons_token_def
      is_digit_def digit_val_def lex_number_def lex_fraction_def lex_exponent_def
      decimal_to_number_def round_binary64_def round_pos_def binary_exponent_def scaled_def
      round_half_even_def bit_length.simps dyadic_numeral Let_def digits_value_def)

text \<open>
  A message whose JSON text holds no colon makes the round trip: the token of the string
  \<open>hello\<close> is still valid at age 300000.
\<close>

lemma hello_token_valid:
  \<open>createWithTimestamp demo_hmac demo 1700000000000 (JStr ''hello'')
     = Inr \<lparr>hmac = ''ee3a02da'', timestamp = 1700000000000, data = JStr ''hello'',
            fullToken = ''ee3a02da:1700000000000:"hello"''\<rparr>
   \<and> verifyWithTimestamp demo_hmac demo 1700000300000 ''ee3a02da:1700000000000:"hello"''
     = \<lparr>isValid = True, reason = ''Valid token'', result_data = Some (JStr ''hello''),
        age = Some (Fin 300000), maxAge = None\<rparr>\<close>
proof
  show \<open>createWithTimestamp demo_hmac demo 1700000000000 (JStr ''hello'')
     = Inr \<lparr>hmac = ''ee3a02da'', timestamp = 1700000000000, data = JStr ''hello'',
            fullToken = ''ee3a02da:1700000000000:"hello"''\<rparr>\<close>
    using create_signed_hello
    by (simp add: createWithTimestamp_def print_simps)
next
  have v: \<open>verify demo_hmac demo (JStr ''{"message":"hello","timestamp":1700000000000}'')
             ''ee3a02da''\<close>
    unfolding verify_def create_signed_hello by (simp add: timingSafeEqual_def)
  show \<open>verifyWithTimestamp demo_hmac demo 1700000300000 ''ee3a02da:1700000000000:"hello"''
     = \<lparr>isValid = True, reason = ''Valid token'', result_data = Some (JStr ''hello''),
        age = Some (Fin 300000), maxAge = None\<rparr>\<close>
    using create_signed_hello v parse_hello parseInt_now
    by (simp add: verifyWithTimestamp_def verifyWithTimestamp_try_def nth_opt_def
        MAX_TOKEN_AGE_def round_int_def print_simps)
qed

subsection \<open>The claims\<close>

text \<open>
  Claim C1 (round trip of a timestamp token). The claim fails on the code for a message
  whose JSON text holds a colon. For every keyed-hash primitive, secret and time: when
  \<open>createWithTimestamp\<close> of the object \<open>{userId: 123}\<close> returns a token,
  \<open>verifyWithTimestamp\<close> of its \<open>fullToken\<close> at that same time splits
  it at every colon, reads \<open>{"userId"\<close> as the message and answers
  \<open>isValid: false\<close> with a reason "Invalid token format: ..." and no data.
\<close>

theorem token_of_object_rejected:
  assumes "createWithTimestamp H this now (JObj [(''userId'', JNum (Fin 123))]) = Inr tk"
  shows "verifyWithTimestamp H this now (fullToken tk)
     = \<lparr>isValid = False, reason = ''Invalid token format: Unexpected end of JSON input'',
        result_data = None, age = None, maxAge = None\<rparr>"
proof -
  from fullToken_parts [OF assms] obtain h where
    "String_split (CHR '':'') (fullToken tk)
       = h # number_to_string (Fin now)
           # String_split (CHR '':'') (JSON_stringify (JObj [(''userId'', JNum (Fin 123))]))" ..
  then have \<open>nth_opt (String_split (CHR '':'') (fullToken tk)) 2 = Some ''{"userId"''\<close>
    by (simp add: nth_opt_def print_simps)
  then have "JSON_parse (ToString (nth_opt (String_split (CHR '':'') (fullToken tk)) 2))
               = Inl (SyntaxError ''Unexpected end of JSON input'')"
    using parse_cut by simp
  from verifyWithTimestamp_parse_error [OF this] show ?thesis by simp
qed

theorem token_of_object_rejected_witness:
  \<open>createWithTimestamp demo_hmac demo 1700000000000 (JObj [(''userId'', JNum (Fin 123))])
     = Inr \<lparr>hmac = ''0a5a465a'', timestamp = 1700000000000,
            data = JObj [(''userId'', JNum (Fin 123))],
            fullToken = ''0a5a465a:1700000000000:{"userId":123}''\<rparr>
   \<and> verifyWithTimestamp demo_hmac demo 1700000000000 ''0a5a465a:1700000000000:{"userId":123}''
     = \<lparr>isValid = False, reason = ''Invalid token format: Unexpected end of JSON input'',
        result_data = None, age = None, maxAge = None\<rparr>\<close>
proof -
  have c: \<open>createWithTimestamp demo_hmac demo 1700000000000 (JObj [(''userId'', JNum (Fin 123))])
     = Inr \<lparr>hmac = ''0a5a465a'', timestamp = 1700000000000,
            data = JObj [(''userId'', JNum (Fin 123))],
            fullToken = ''0a5a465a:1700000000000:{"userId":123}''\<rparr>\<close>
    using create_signed_user
    by (simp add: createWithTimestamp_def print_simps)
  from token_of_object_rejected [OF c] c show ?thesis by simp
qed

text \<open>
  Claim C2 (a timestamp header that is not an integer ends in a state of its own). The
  claim fails on the code: the result of \<open>parseInt\<close> is never checked. For every
  request that has both headers and whose timestamp header parses to \<open>NaN\<close>, at
  every server time, the expiry test is false and the signature check alone decides:
  the request ends as "Invalid signature", the state the claim sets the outcome apart
  from, or it is authenticated. A request signed over the timestamp \<open>abc\<close> is
  authenticated at every time: the block that is to prevent replays does nothing for it.
\<close>

theorem unparseable_timestamp_never_expires:
  assumes "headers req TIMESTAMP_HEADER = Some t" and "t \<noteq> []"
    and "headers req SIGNATURE_HEADER = Some s" and "s \<noteq> []"
    and "parseInt t = NaN"
  shows "hmacAuth H hm now req =
     (if verify H hm (JStr (createStringToSign (req_method req) (path req) (body req) t)) s
      then Next else InvalidSignature)"
  using assms by (simp add: hmacAuth_def hmacAuth_try_def Let_def)

theorem unparseable_timestamp_never_expires_witness:
  "headers \<lparr>headers = [''x-timestamp'' \<mapsto> ''abc'', ''x-signature'' \<mapsto> ''7aeb538b''],
         req_method = ''GET'', path = ''/api/protected'', body = None\<rparr> TIMESTAMP_HEADER = Some ''abc''
   \<and> ''abc'' \<noteq> []
   \<and> headers \<lparr>headers = [''x-timestamp'' \<mapsto> ''abc'', ''x-signature'' \<mapsto> ''7aeb538b''],
         req_method = ''GET'', path = ''/api/protected'', body = None\<rparr> SIGNATURE_HEADER
       = Some ''7aeb538b''
   \<and> ''7aeb538b'' \<noteq> []
   \<and> parseInt ''abc'' = NaN
   \<and> hmacAuth demo_hmac demo 1700000000000
        \<lparr>headers = [''x-timestamp'' \<mapsto> ''abc'', ''x-signature'' \<mapsto> ''7aeb538b''],
         req_method = ''GET'', path = ''/api/protected'', body = None\<rparr>
       = Next
   \<and> hmacAuth demo_hmac demo 4102444800000
        \<lparr>headers = [''x-timestamp'' \<mapsto> ''abc'', ''x-signature'' \<mapsto> ''7aeb538b''],
         req_method = ''GET'', path = ''/api/protected'', body = None\<rparr>
       = Next"
proof -
  have good: "verify demo_hmac demo (JStr ''abc.GET./api/protected.{}'') ''7aeb538b''"
    unfolding verify_def create_request by (simp add: timingSafeEqual_def)
  have run: "hmacAuth demo_hmac demo now
        \<lparr>headers = [''x-timestamp'' \<mapsto> ''abc'', ''x-signature'' \<mapsto> ''7aeb538b''],
         req_method = ''GET'', path = ''/api/protected'', body = None\<rparr> = Next" for now
    using unparseable_timestamp_never_expires
      [where H = demo_hmac and hm = demo and now = now and t = "''abc''" and s = "''7aeb538b''"
         and req = "\<lparr>headers = [''x-timestamp'' \<mapsto> ''abc'', ''x-signature'' \<mapsto> ''7aeb538b''],
           req_method = ''GET'', path = ''/api/protected'', body = None\<rparr>"]
    by (simp add: parseInt_abc TIMESTAMP_HEADER_def SIGNATURE_HEADER_def string_to_sign_abc good)
  show ?thesis
    using run [of 1700000000000] run [of 4102444800000]
    by (simp add: parseInt_abc TIMESTAMP_HEADER_def SIGNATURE_HEADER_def)
qed

text \<open>
  Claim C3 (a token with a defective part is answered with "Invalid token format"). The
  claim fails on the code for a timestamp part that is not an integer: \<open>parseInt\<close>
  gives \<open>NaN\<close>, nothing checks it, the expiry test is false at every time, the digest
  is computed over the timestamp \<open>null\<close>, and the digest check alone decides. For
  every token whose timestamp part parses to \<open>NaN\<close> and whose message part is JSON,
  at every time and for every keyed-hash primitive that answers, the result is
  "Valid token" when the first part is a digest of the message with the timestamp
  \<open>null\<close>, and "Invalid HMAC" otherwise; it is never "Invalid token format". The
  token \<open>c4aed4ae:abc:1\<close>, whose first part is the digest of
  \<open>{"message":1,"timestamp":null}\<close>, is valid at every time, and the token
  \<open>00:abc:1\<close> is answered with "Invalid HMAC".
\<close>

theorem nonnumeric_timestamp_token_accepted:
  assumes "parseInt (ToString (nth_opt (String_split (CHR '':'') tok) 1)) = NaN"
    and "JSON_parse (ToString (nth_opt (String_split (CHR '':'') tok) 2)) = Inr msg"
    and "H (algorithm this) (secret this)
           (JSON_stringify (JObj [(''message'', msg), (''timestamp'', JNum NaN)])) = Inr bytes"
  shows "verifyWithTimestamp H this now tok =
     (if verify H this (JStr (JSON_stringify (JObj [(''message'', msg), (''timestamp'', JNum NaN)])))
           (ToString (nth_opt (String_split (CHR '':'') tok) 0))
      then \<lparr>isValid = True, reason = ''Valid token'', result_data = Some msg,
            age = Some NaN, maxAge = None\<rparr>
      else \<lparr>isValid = False, reason = ''Invalid HMAC'', result_data = Some JNull,
            age = Some NaN, maxAge = None\<rparr>)"
proof -
  from assms(3) have c: "create H this (JStr (JSON_stringify
      (JObj [(''message'', msg), (''timestamp'', JNum NaN)]))) = Inr (hex_encode bytes)"
    by (simp add: create_def)
  from assms(1,2) c show ?thesis
    by (simp add: verifyWithTimestamp_def verifyWithTimestamp_try_def Let_def
        del: JSON_stringify.simps)
qed

theorem nonnumeric_timestamp_token_accepted_witness:
  \<open>parseInt (ToString (nth_opt (String_split (CHR '':'') ''c4aed4ae:abc:1'') 1)) = NaN
   \<and> JSON_parse (ToString (nth_opt (String_split (CHR '':'') ''c4aed4ae:abc:1'') 2))
       = Inr (JNum (Fin 1))
   \<and> demo_hmac (algorithm demo) (secret demo)
        (JSON_stringify (JObj [(''message'', JNum (Fin 1)), (''timestamp'', JNum NaN)]))
       = Inr [0xc4, 0xae, 0xd4, 0xae]
   \<and> verifyWithTimestamp demo_hmac demo 1700000000000 ''c4aed4ae:abc:1''
       = \<lparr>isValid = True, reason = ''Valid token'', result_data = Some (JNum (Fin 1)),
          age = Some NaN, maxAge = None\<rparr>
   \<and> verifyWithTimestamp demo_hmac demo 4102444800000 ''c4aed4ae:abc:1''
       = \<lparr>isValid = True, reason = ''Valid token'', result_data = Some (JNum (Fin 1)),
          age = Some NaN, maxAge = None\<rparr>
   \<and> parseInt (ToString (nth_opt (String_split (CHR '':'') ''00:abc:1'') 1)) = NaN
   \<and> JSON_parse (ToString (nth_opt (String_split (CHR '':'') ''00:abc:1'') 2))
       = Inr (JNum (Fin 1))
   \<and> verifyWithTimestamp demo_hmac demo 1700000000000 ''00:abc:1''
       = \<lparr>isValid = False, reason = ''Invalid HMAC'', result_data = Some JNull,
          age = Some NaN, maxAge = None\<rparr>\<close>
proof -
  have signed: \<open>JSON_stringify (JObj [(''message'', JNum (Fin 1)), (''timestamp'', JNum NaN)])
                = ''{"message":1,"timestamp":null}''\<close>
    by (simp add: print_simps)
  have t1: "parseInt (ToString (nth_opt (String_split (CHR '':'') ''c4aed4ae:abc:1'') 1)) = NaN"
    by (simp add: nth_opt_def parseInt_abc)
  have m1: "JSON_parse (ToString (nth_opt (String_split (CHR '':'') ''c4aed4ae:abc:1'') 2))
              = Inr (JNum (Fin 1))"
    by (simp add: nth_opt_def parse_one)
  have t2: "parseInt (ToString (nth_opt (String_split (CHR '':'') ''00:abc:1'') 1)) = NaN"
    by (simp add: nth_opt_def parseInt_abc)
  have m2: "JSON_parse (ToString (nth_opt (String_split (CHR '':'') ''00:abc:1'') 2))
              = Inr (JNum (Fin 1))"
    by (simp add: nth_opt_def parse_one)
  have h: "demo_hmac (algorithm demo) (secret demo)
        (JSON_stringify (JObj [(''message'', JNum (Fin 1)), (''timestamp'', JNum NaN)]))
       = Inr [0xc4, 0xae, 0xd4, 0xae]"
    unfolding signed by (rule demo_signed_nan)
  have good: \<open>verify demo_hmac demo (JStr ''{"message":1,"timestamp":null}'') ''c4aed4ae''\<close>
    unfolding verify_def create_signed_nan by (simp add: timingSafeEqual_def)
  have bad: \<open>\<not> verify demo_hmac demo (JStr ''{"message":1,"timestamp":null}'') ''00''\<close>
    unfolding verify_def create_signed_nan
    by (simp add: timingSafeEqual_def is_hex_char_def digit_val_def)
  have p1: "ToString (nth_opt (String_split (CHR '':'') ''c4aed4ae:abc:1'') 0) = ''c4aed4ae''"
    by (simp add: nth_opt_def)
  have p2: "ToString (nth_opt (String_split (CHR '':'') ''00:abc:1'') 0) = ''00''"
    by (simp add: nth_opt_def)
  have r1: "verifyWithTimestamp demo_hmac demo now ''c4aed4ae:abc:1''
       = \<lparr>isValid = True, reason = ''Valid token'', result_data = Some (JNum (Fin 1)),
          age = Some NaN, maxAge = None\<rparr>" for now
    using nonnumeric_timestamp_token_accepted
      [where H = demo_hmac and this = demo and now = now, OF t1 m1 h] good
    unfolding signed p1 by simp
  have r2: "verifyWithTimestamp demo_hmac demo now ''00:abc:1''
       = \<lparr>isValid = False, reason = ''Invalid HMAC'', result_data = Some JNull,
          age = Some NaN, maxAge = None\<rparr>" for now
    using nonnumeric_timestamp_token_accepted
      [where H = demo_hmac and this = demo and now = now, OF t2 m2 h] bad
    unfolding signed p2 by simp
  from t1 m1 h r1 [of 1700000000000] r1 [of 4102444800000] t2 m2 r2 [of 1700000000000]
  show ?thesis by (intro conjI)
qed

text \<open>
  The other two cases of claim C3 are as the claim says, up to the text of the reason,
  which carries the message of the error: a token of fewer than three parts, or with a
  third part that is not JSON, is answered with \<open>isValid: false\<close> and a reason that
  begins "Invalid token format: ".
\<close>

lemma malformed_token_rejected:
  "length (String_split (CHR '':'') tok) < 3
     \<or> (\<exists>e. JSON_parse (ToString (nth_opt (String_split (CHR '':'') tok) 2)) = Inl e)
   \<Longrightarrow> \<exists>m. verifyWithTimestamp H this now tok =
         \<lparr>isValid = False, reason = ''Invalid token format: '' @ m,
          result_data = None, age = None, maxAge = None\<rparr>"
proof (erule disjE)
  assume "length (String_split (CHR '':'') tok) < 3"
  then have "nth_opt (String_split (CHR '':'') tok) 2 = None"
    by (simp add: nth_opt_beyond)
  then have "JSON_parse (ToString (nth_opt (String_split (CHR '':'') tok) 2))
               = Inl (SyntaxError ''Unexpected token in JSON'')"
    using JSON_parse_undefined by simp
  from verifyWithTimestamp_parse_error [OF this] show ?thesis by blast
next
  assume "\<exists>e. JSON_parse (ToString (nth_opt (String_split (CHR '':'') tok) 2)) = Inl e"
  then obtain e where
    "JSON_parse (ToString (nth_opt (String_split (CHR '':'') tok) 2)) = Inl e" ..
  from verifyWithTimestamp_parse_error [OF this] show ?thesis by blast
qed

text \<open>
  Claim C4 (a token older than \<open>MAX_TOKEN_AGE\<close> is answered with "Token expired",
  whatever its digest). The claim fails on the code for a token whose message holds a
  colon, by the same cut at every colon that breaks the round trip of claim C1. The
  token of the expired-token test of \<open>src/client/apiClient.js\<close>, with the message
  \<open>{"test":"expired"}\<close> and a timestamp 600000 ms in the past, is answered with
  "Invalid token format: ..." for every digest part, every keyed-hash primitive and
  every secret: the message part read is \<open>{"test"\<close>, and the parse error comes
  before the test of the age.
\<close>

theorem expired_object_token_not_expired:
  assumes "CHR '':'' \<notin> set h"
  shows \<open>parseInt ''1699999400000'' = Fin 1699999400000
     \<and> num_greater (num_minus (Fin 1700000000000) (Fin 1699999400000)) (Fin MAX_TOKEN_AGE)
     \<and> verifyWithTimestamp H this 1700000000000 (h @ '':1699999400000:{"test":"expired"}'')
       = \<lparr>isValid = False, reason = ''Invalid token format: Unexpected end of JSON input'',
          result_data = None, age = None, maxAge = None\<rparr>\<close>
proof (intro conjI)
  show "parseInt ''1699999400000'' = Fin 1699999400000" by (rule parseInt_old)
  show "num_greater (num_minus (Fin 1700000000000) (Fin 1699999400000)) (Fin MAX_TOKEN_AGE)"
    by (simp add: MAX_TOKEN_AGE_def round_int_def)
  have \<open>String_split (CHR '':'') (h @ CHR '':'' # ''1699999400000:{"test":"expired"}'')
          = h # String_split (CHR '':'') ''1699999400000:{"test":"expired"}''\<close>
    by (rule String_split_append [OF assms])
  then have \<open>nth_opt (String_split (CHR '':'') (h @ '':1699999400000:{"test":"expired"}'')) 2
               = Some ''{"test"''\<close>
    by (simp add: nth_opt_def)
  then have \<open>JSON_parse (ToString (nth_opt (String_split (CHR '':'')
                (h @ '':1699999400000:{"test":"expired"}'')) 2))
               = Inl (SyntaxError ''Unexpected end of JSON input'')\<close>
    using parse_cut_test by simp
  from verifyWithTimestamp_parse_error [OF this]
  show \<open>verifyWithTimestamp H this 1700000000000 (h @ '':1699999400000:{"test":"expired"}'')
       = \<lparr>isValid = False, reason = ''Invalid token format: Unexpected end of JSON input'',
          result_data = None, age = None, maxAge = None\<rparr>\<close>
    by simp
qed

theorem expired_object_token_not_expired_witness:
  \<open>CHR '':'' \<notin> set ''00''
   \<and> num_greater (num_minus (Fin 1700000000000) (Fin 1699999400000)) (Fin MAX_TOKEN_AGE)
   \<and> verifyWithTimestamp demo_hmac demo 1700000000000 ''00:1699999400000:{"test":"expired"}''
       = \<lparr>isValid = False, reason = ''Invalid token format: Unexpected end of JSON input'',
          result_data = None, age = None, maxAge = None\<rparr>\<close>
proof -
  have h: "CHR '':'' \<notin> set ''00''" by simp
  from expired_object_token_not_expired [OF h, where H = demo_hmac and this = demo] h
  show ?thesis by simp
qed

text \<open>
  For a token whose timestamp part is an integer and whose third part is JSON, the
  expiry is as claim C4 says: \<open>MAX_TOKEN_AGE\<close> is 300000, an age above it gives
  "Token expired" whatever the digest part is, and an age of at most
  \<open>MAX_TOKEN_AGE\<close> never gives that reason.
\<close>

lemma token_age_integer:
  "num_greater (num_minus (Fin now) (Fin t)) (Fin MAX_TOKEN_AGE) = (now - t > MAX_TOKEN_AGE)"
  using round_int_greater [of MAX_TOKEN_AGE "now - t"] by (simp add: MAX_TOKEN_AGE_def)

lemma expiry_boundary_parsed:
  assumes "parseInt (ToString (nth_opt (String_split (CHR '':'') tok) 1)) = Fin t"
    and "JSON_parse (ToString (nth_opt (String_split (CHR '':'') tok) 2)) = Inr msg"
  shows "MAX_TOKEN_AGE = 300000
     \<and> (now - t > MAX_TOKEN_AGE \<longrightarrow>
          verifyWithTimestamp H this now tok =
            \<lparr>isValid = False, reason = ''Token expired'', result_data = None,
             age = Some (num_minus (Fin now) (Fin t)), maxAge = Some MAX_TOKEN_AGE\<rparr>)
     \<and> (now - t \<le> MAX_TOKEN_AGE \<longrightarrow>
          reason (verifyWithTimestamp H this now tok) \<noteq> ''Token expired'')"
proof (intro conjI impI)
  show "MAX_TOKEN_AGE = 300000" by (simp add: MAX_TOKEN_AGE_def)
next
  assume "now - t > MAX_TOKEN_AGE"
  then have "num_greater (num_minus (Fin now) (Fin t)) (Fin MAX_TOKEN_AGE)"
    by (simp only: token_age_integer)
  with assms show "verifyWithTimestamp H this now tok =
            \<lparr>isValid = False, reason = ''Token expired'', result_data = None,
             age = Some (num_minus (Fin now) (Fin t)), maxAge = Some MAX_TOKEN_AGE\<rparr>"
    by (simp add: verifyWithTimestamp_def verifyWithTimestamp_try_def Let_def)
next
  assume "now - t \<le> MAX_TOKEN_AGE"
  then have fresh: "\<not> num_greater (num_minus (Fin now) (Fin t)) (Fin MAX_TOKEN_AGE)"
    unfolding token_age_integer by simp
  show "reason (verifyWithTimestamp H this now tok) \<noteq> ''Token expired''"
  proof (cases "create H this (JStr (JSON_stringify
                  (JObj [(''message'', msg), (''timestamp'', JNum (Fin t))])))")
    case (Inl e)
    with assms fresh show ?thesis
      by (simp add: verifyWithTimestamp_def verifyWithTimestamp_try_def Let_def)
  next
    case (Inr h)
    with assms fresh show ?thesis
      by (simp add: verifyWithTimestamp_def verifyWithTimestamp_try_def Let_def)
  qed
qed

text \<open>
  The message need not be an integer or a string: the token \<open>00:1699999699999:1.5\<close>
  is expired at age 300001, whatever the keyed-hash primitive and the secret.
\<close>

lemma fraction_message_expired:
  "verifyWithTimestamp H this 1700000000000 ''00:1699999699999:1.5''
     = \<lparr>isValid = False, reason = ''Token expired'', result_data = None,
        age = Some (Fin 300001), maxAge = Some MAX_TOKEN_AGE\<rparr>"
  using parse_fraction parseInt_late
  by (simp add: verifyWithTimestamp_def verifyWithTimestamp_try_def nth_opt_def
      MAX_TOKEN_AGE_def round_int_def)

text \<open>
  Claim C5: for every secret and message, a digest freshly created from the message
  verifies against that same message under the same secret: whenever the keyed-hash
  primitive answers for the configured algorithm, \<open>create\<close> returns a digest and
  \<open>verify\<close> of the message and that digest is true.
\<close>

theorem verify_create:
  "H (algorithm this) (secret this) (message_data msg) = Inr bytes
   \<Longrightarrow> \<exists>d. create H this msg = Inr d \<and> verify H this msg d"
  by (simp add: create_def verify_def timingSafeEqual_def)

theorem verify_create_witness:
  "(\<exists>bytes. demo_hmac (algorithm demo) (secret demo)
              (message_data (JObj [(''userId'', JNum (Fin 123))])) = Inr bytes)
   \<and> (\<exists>d. create demo_hmac demo (JObj [(''userId'', JNum (Fin 123))]) = Inr d
          \<and> verify demo_hmac demo (JObj [(''userId'', JNum (Fin 123))]) d)"
proof -
  obtain bytes where h:
    "demo_hmac (algorithm demo) (secret demo)
       (message_data (JObj [(''userId'', JNum (Fin 123))])) = Inr bytes"
    by (simp add: demo_hmac_def demo_def)
  from verify_create [where H = demo_hmac and this = demo, OF h] h show ?thesis by blast
qed



text \<open>
  Further candidates for the digest \<open>f498c498\<close>: one extended by a hexadecimal
  pair, a shorter one and one with a bad pair are rejected; the digest in capitals and
  the digest with one more digit are accepted.
\<close>

lemma verify_rejects_longer_hex:
  "\<not> verify demo_hmac demo (JStr ''hi'') ''f498c49800''
   \<and> \<not> verify demo_hmac demo (JStr ''hi'') ''f498c4''
   \<and> \<not> verify demo_hmac demo (JStr ''hi'') ''f498c4zz''
   \<and> verify demo_hmac demo (JStr ''hi'') ''F498C498''
   \<and> verify demo_hmac demo (JStr ''hi'') ''f498c4980''"
  unfolding verify_def create_hi
  by (simp add: timingSafeEqual_def is_hex_char_def digit_val_def)

text \<open>
  Claim C7 (requests too far from the server's time are rejected as expired). The
  claim fails on the code for a timestamp outside the range of a date: when the
  timestamp header parses to an integer beyond 8.64e15 in absolute value, the difference
  to the server's time exceeds \<open>MAX_TOKEN_AGE\<close>, the branch of the expiry
  response is entered, the rendering of the received time throws, and the request is
  answered with status 500 "Authentication error" instead of "Request expired".
\<close>

theorem far_timestamp_server_error:
  assumes "headers req TIMESTAMP_HEADER = Some t" and "t \<noteq> []"
    and "headers req SIGNATURE_HEADER = Some s" and "s \<noteq> []"
    and "parseInt t = Fin rt" and "\<bar>rt\<bar> > 8640000000000000"
    and "\<bar>now - rt\<bar> > MAX_TOKEN_AGE"
  shows "num_greater (Math_abs (num_minus (Fin now) (parseInt t))) (Fin MAX_TOKEN_AGE)
     \<and> hmacAuth H hm now req = AuthenticationError ''Invalid time value''
     \<and> status (hmacAuth H hm now req) = Some 500"
proof -
  from assms(7) have far: "num_greater (Math_abs (num_minus (Fin now) (Fin rt))) (Fin MAX_TOKEN_AGE)"
    using round_int_abs_greater [of MAX_TOKEN_AGE "now - rt"] by (simp add: MAX_TOKEN_AGE_def)
  with assms show ?thesis
    by (simp add: hmacAuth_def hmacAuth_try_def Let_def new_Date_def toISOString_def)
qed

theorem far_timestamp_server_error_witness:
  "headers \<lparr>headers = [''x-timestamp'' \<mapsto> ''8640000000000001'', ''x-signature'' \<mapsto> ''00''],
         req_method = ''GET'', path = ''/api/protected'', body = None\<rparr> TIMESTAMP_HEADER
     = Some ''8640000000000001''
   \<and> headers \<lparr>headers = [''x-timestamp'' \<mapsto> ''8640000000000001'', ''x-signature'' \<mapsto> ''00''],
         req_method = ''GET'', path = ''/api/protected'', body = None\<rparr> SIGNATURE_HEADER
     = Some ''00''
   \<and> parseInt ''8640000000000001'' = Fin 8640000000000001
   \<and> \<bar>8640000000000001 :: int\<bar> > 8640000000000000
   \<and> \<bar>1700000000000 - 8640000000000001 :: int\<bar> > MAX_TOKEN_AGE
   \<and> hmacAuth demo_hmac demo 1700000000000
        \<lparr>headers = [''x-timestamp'' \<mapsto> ''8640000000000001'', ''x-signature'' \<mapsto> ''00''],
         req_method = ''GET'', path = ''/api/protected'', body = None\<rparr>
       = AuthenticationError ''Invalid time value''
   \<and> status (hmacAuth demo_hmac demo 1700000000000
        \<lparr>headers = [''x-timestamp'' \<mapsto> ''8640000000000001'', ''x-signature'' \<mapsto> ''00''],
         req_method = ''GET'', path = ''/api/protected'', body = None\<rparr>) = Some 500"
  using far_timestamp_server_error
    [where H = demo_hmac and hm = demo and now = 1700000000000
       and t = "''8640000000000001''" and s = "''00''" and rt = 8640000000000001
       and req = "\<lparr>headers = [''x-timestamp'' \<mapsto> ''8640000000000001'', ''x-signature'' \<mapsto> ''00''],
         req_method = ''GET'', path = ''/api/protected'', body = None\<rparr>"]
  by (simp add: parseInt_far TIMESTAMP_HEADER_def SIGNATURE_HEADER_def MAX_TOKEN_AGE_def)

text \<open>
  Within the range of a date the middleware does what claim C7 says: a request whose
  time differs from the server's by more than \<open>MAX_TOKEN_AGE\<close>, in either direction,
  gets the expiry response.
\<close>

lemma hmacAuth_expired_in_range:
  assumes "headers req TIMESTAMP_HEADER = Some t" and "t \<noteq> []"
    and "headers req SIGNATURE_HEADER = Some s" and "s \<noteq> []"
    and "parseInt t = Fin rt" and "\<bar>rt\<bar> \<le> 8640000000000000" and "\<bar>now\<bar> \<le> 8640000000000000"
    and "\<bar>now - rt\<bar> > MAX_TOKEN_AGE"
  shows "hmacAuth H hm now req
           = RequestExpired rt now (Math_abs (num_minus (Fin now) (Fin rt))) MAX_TOKEN_AGE"
proof -
  from assms(8) have far: "num_greater (Math_abs (num_minus (Fin now) (Fin rt))) (Fin MAX_TOKEN_AGE)"
    using round_int_abs_greater [of MAX_TOKEN_AGE "now - rt"] by (simp add: MAX_TOKEN_AGE_def)
  with assms show ?thesis
    by (simp add: hmacAuth_def hmacAuth_try_def Let_def new_Date_def toISOString_def)
qed

text \<open>
  A timestamp of so many digits that it parses to an infinity is answered in the same
  way: the difference is infinite and the date is invalid.
\<close>

lemma hmacAuth_infinite_timestamp:
  assumes "headers req TIMESTAMP_HEADER = Some t" and "t \<noteq> []"
    and "headers req SIGNATURE_HEADER = Some s" and "s \<noteq> []"
    and "parseInt t = PosInf \<or> parseInt t = NegInf"
  shows "hmacAuth H hm now req = AuthenticationError ''Invalid time value''"
  using assms
  by (auto simp: hmacAuth_def hmacAuth_try_def Let_def new_Date_def toISOString_def)

text \<open>
  Claim C8, as amended. For every method, path, body and timestamp the string to sign
  is \<open>{timestamp}.{UPPERCASE method}.{path}.{json(body)}\<close>, where a body that is
  absent, \<open>null\<close> or any other value JavaScript takes for false (\<open>false\<close>, \<open>0\<close>,
  the empty string) is replaced by the empty object before serialization; the function
  is pure and always returns.
\<close>

theorem createStringToSign_format:
  "createStringToSign meth pth bdy ts =
     ts @ ''.'' @ toUpperCase meth @ ''.'' @ pth @ ''.'' @
       (if falsy bdy then ''{}'' else case bdy of None \<Rightarrow> ''{}'' | Some b \<Rightarrow> JSON_stringify b)"
  by (cases bdy) (simp_all add: createStringToSign_def)

text \<open>
  Claim C8 as stated fails: the body \<open>0\<close> is neither absent nor \<open>null\<close>, and it is
  signed as \<open>{}\<close>, not as its JSON text \<open>0\<close>.
\<close>

theorem falsy_body_counterexample:
  "createStringToSign ''get'' ''/p'' (Some (JNum (Fin 0))) ''1'' = ''1.GET./p.{}''
   \<and> ''1'' @ ''.'' @ toUpperCase ''get'' @ ''.'' @ ''/p'' @ ''.'' @ JSON_stringify (JNum (Fin 0))
       = ''1.GET./p.0''"
  by (simp add: createStringToSign_def toUpperCase_def upper_char_def print_simps)

text \<open>
  Claim C10: for every secret and every message that is not a string, \<open>create\<close> of
  the message equals \<open>create\<close> of the string holding its JSON text, and a digest
  verifies against the one exactly when it verifies against the other.
\<close>

theorem create_object_as_text:
  "\<not> is_JStr msg \<Longrightarrow>
     create H this msg = create H this (JStr (JSON_stringify msg))
     \<and> verify H this msg d = verify H this (JStr (JSON_stringify msg)) d"
  by (cases msg) (simp_all add: create_def verify_def)

theorem create_object_as_text_witness:
  "\<not> is_JStr (JObj [(''userId'', JNum (Fin 123))])
   \<and> create demo_hmac demo (JObj [(''userId'', JNum (Fin 123))])
       = create demo_hmac demo (JStr (JSON_stringify (JObj [(''userId'', JNum (Fin 123))])))
   \<and> verify demo_hmac demo (JObj [(''userId'', JNum (Fin 123))]) ''00''
       = verify demo_hmac demo (JStr (JSON_stringify (JObj [(''userId'', JNum (Fin 123))]))) ''00''"
proof -
  have h: "\<not> is_JStr (JObj [(''userId'', JNum (Fin 123))])" by simp
  from create_object_as_text [OF h, where H = demo_hmac and this = demo and d = "''00''"] h
  show ?thesis by blast
qed

end
